theory Spec2Isabelle
  imports Main "HOL-Library.Sublist"
begin

section \<open>Python values, exceptions and the effect trace\<close>

text \<open>
  The module \<^verbatim>\<open>lmdeploy/pytorch/check_env/__init__.py\<close> is a sequence of probes. Each
  probe calls into third-party libraries (torch, triton, transformers, peft, awq), writes to
  the logger \<^verbatim>\<open>lmdeploy\<close> and, on a fatal finding, calls \<^verbatim>\<open>_handle_exception\<close>, which ends
  in \<^verbatim>\<open>exit(1)\<close>.

  The embedding makes these effects explicit. A probe is a function from an environment
  (what each third-party call does when it is made) to a trace of events (the logger calls
  and the third-party calls, in program order) and an outcome: the probe returns, an
  exception leaves it, or the interpreter exits with a status.

  Strings are \<^typ>\<open>string\<close>: a character stands for a code point below 256, which covers
  every literal of the module. Python's \<^verbatim>\<open>in\<close> on two strings is the contiguous-substring
  test.
\<close>

datatype pyval =
    PStr string
  | PInt int
  | PNone
  | PTuple "pyval list"

text \<open>
  An exception object. \<open>exn_class\<close> is its place among the classes that the module's
  \<^verbatim>\<open>except\<close> clauses name (\<^verbatim>\<open>RuntimeError\<close>, \<^verbatim>\<open>AssertionError\<close>, \<^verbatim>\<open>Exception\<close>); \<open>exn_name\<close> is
  \<^verbatim>\<open>type(e).__name__\<close>; \<open>exn_args\<close> is \<^verbatim>\<open>e.args\<close>; \<open>exn_str\<close> is \<^verbatim>\<open>str(e)\<close>, which the class
  decides (\<^verbatim>\<open>OSError\<close> and \<^verbatim>\<open>KeyError\<close> do not print their \<^verbatim>\<open>args\<close> the way \<^verbatim>\<open>Exception\<close> does).
  Only instances of \<^verbatim>\<open>Exception\<close> are modelled: \<^verbatim>\<open>KeyboardInterrupt\<close> and the like are not.
\<close>

datatype exn_class = RuntimeErrorClass | AssertionErrorClass | ExceptionClass

record exn =
  exn_class :: exn_class
  exn_name :: string
  exn_args :: "pyval list"
  exn_str :: string

datatype level = DEBUG | INFO | WARNING | ERROR

text \<open>
  The \<^verbatim>\<open>exc_info\<close> of a log record. \<^verbatim>\<open>exc_info=1\<close> makes the logging library attach
  \<^verbatim>\<open>sys.exc_info()\<close>: the exception that is being handled at the time of the call, or nothing
  when the call is made outside every \<^verbatim>\<open>except\<close> block.
\<close>

datatype exc_info = NoExcInfo | ExcInfo "exn option"

text \<open>
  The third-party calls of the module. One constructor stands for the statements of one
  \<^verbatim>\<open>try\<close> body that lie between two logger calls or branches; a failure of any of them
  reaches the same handler.
\<close>

datatype ext_op =
    DlinferImport
  | TorchSmoke
  | TritonImport
  | TritonSmoke
  | DeviceCapability
  | TransformersImport
  | ConfigLoad string bool
  | FromHfConfig string string
  | Bf16Query string
  | AwqImport
  | AwqExtImport
  | PeftLoad string

datatype event =
    Log level string exc_info
  | Ext ext_op

datatype 'a outcome = Returns 'a | Raises exn | Exits int

type_synonym 'a run = "event list \<times> 'a outcome"

definition returns :: "'a \<Rightarrow> 'a run" where
  "returns a = ([], Returns a)"

definition raises :: "exn \<Rightarrow> 'a run" where
  "raises e = ([], Raises e)"

definition after :: "event list \<Rightarrow> 'a run \<Rightarrow> 'a run" where
  "after evs r = (evs @ fst r, snd r)"

text \<open>Sequencing: the second probe runs only when the first one returns.\<close>

definition then_run :: "'a run \<Rightarrow> ('a \<Rightarrow> 'b run) \<Rightarrow> 'b run" where
  "then_run r f =
     (case snd r of
        Returns a \<Rightarrow> after (fst r) (f a)
      | Raises e \<Rightarrow> (fst r, Raises e)
      | Exits n \<Rightarrow> (fst r, Exits n))"

definition log_level :: "event \<Rightarrow> level option" where
  "log_level ev = (case ev of Log l _ _ \<Rightarrow> Some l | Ext _ \<Rightarrow> None)"

subsection \<open>The operators of Python that the module uses\<close>

fun contains :: "string \<Rightarrow> string \<Rightarrow> bool" where
  "contains needle [] = (needle = [])"
| "contains needle (c # cs) = (prefix needle (c # cs) \<or> contains needle cs)"

text \<open>
  \<^verbatim>\<open>needle in v\<close> for a string \<open>needle\<close>: the substring test on a string, membership on a
  tuple, and a \<^verbatim>\<open>TypeError\<close> on a value that is no container (the text is CPython's).
\<close>

definition type_error :: "string \<Rightarrow> exn" where
  "type_error type_name =
     (let text = ''argument of type '' @ [CHR 0x27] @ type_name @ [CHR 0x27] @ '' is not iterable''
      in \<lparr>exn_class = ExceptionClass, exn_name = ''TypeError'',
          exn_args = [PStr text], exn_str = text\<rparr>)"

fun py_in :: "string \<Rightarrow> pyval \<Rightarrow> exn + bool" where
  "py_in needle (PStr s) = Inr (contains needle s)"
| "py_in needle (PTuple vs) = Inr (PStr needle \<in> set vs)"
| "py_in needle (PInt i) = Inl (type_error ''int'')"
| "py_in needle PNone = Inl (type_error ''NoneType'')"

text \<open>
  \<^verbatim>\<open>str\<close> of a natural number and of an integer, in decimal.
\<close>

fun string_of_nat :: "nat \<Rightarrow> string" where
  "string_of_nat n =
     (if n < 10 then [''0123456789'' ! n]
      else string_of_nat (n div 10) @ [''0123456789'' ! (n mod 10)])"

declare string_of_nat.simps [simp del]

definition string_of_int :: "int \<Rightarrow> string" where
  "string_of_int i = (if i < 0 then CHR ''-'' # string_of_nat (nat (- i)) else string_of_nat (nat i))"

text \<open>
  \<^verbatim>\<open>repr\<close> of a string: single quotes, unless the string has a single quote and no double
  quote; the backslash and the chosen quote are escaped, and so is every code point that
  \<^verbatim>\<open>str.isprintable\<close> refuses: below 32, from 127 to 160, and 173.
\<close>

definition repr_char :: "char \<Rightarrow> char \<Rightarrow> string" where
  "repr_char quote c =
     (if c = CHR 0x5C then [CHR 0x5C, CHR 0x5C]
      else if c = quote then [CHR 0x5C, quote]
      else if c = CHR 0x0A then [CHR 0x5C, CHR ''n'']
      else if c = CHR 0x0D then [CHR 0x5C, CHR ''r'']
      else if c = CHR 0x09 then [CHR 0x5C, CHR ''t'']
      else if (of_char c :: nat) < 32 \<or> (127 \<le> (of_char c :: nat) \<and> (of_char c :: nat) \<le> 160)
              \<or> (of_char c :: nat) = 173 then
        [CHR 0x5C, CHR ''x'', ''0123456789abcdef'' ! ((of_char c :: nat) div 16),
         ''0123456789abcdef'' ! ((of_char c :: nat) mod 16)]
      else [c])"

definition repr_string :: "string \<Rightarrow> string" where
  "repr_string s =
     (let quote = (if CHR 0x27 \<in> set s \<and> CHR 0x22 \<notin> set s then CHR 0x22 else CHR 0x27)
      in quote # concat (map (repr_char quote) s) @ [quote])"

fun join :: "string \<Rightarrow> string list \<Rightarrow> string" where
  "join sep [] = []"
| "join sep [s] = s"
| "join sep (s # t # ss) = s @ sep @ join sep (t # ss)"

fun py_repr :: "pyval \<Rightarrow> string" where
  "py_repr (PStr s) = repr_string s"
| "py_repr (PInt i) = string_of_int i"
| "py_repr PNone = ''None''"
| "py_repr (PTuple vs) =
     (case vs of
        [v] \<Rightarrow> ''('' @ py_repr v @ '',)''
      | _ \<Rightarrow> ''('' @ join '', '' (map py_repr vs) @ '')'')"

text \<open>\<^verbatim>\<open>str(v)\<close>, which is what an f-string field \<^verbatim>\<open>{v}\<close> prints.\<close>

definition py_str :: "pyval \<Rightarrow> string" where
  "py_str v = (case v of PStr s \<Rightarrow> s | _ \<Rightarrow> py_repr v)"

subsection \<open>Versions\<close>

text \<open>
  \<^verbatim>\<open>packaging.version\<close> is a third-party library; its \<^verbatim>\<open>Version\<close> is modelled whole. A version
  has an epoch, a release (the numbers of \<^verbatim>\<open>4.44.1\<close>), and optional pre-release (\<^verbatim>\<open>a\<close>, \<^verbatim>\<open>b\<close> or
  \<^verbatim>\<open>rc\<close> with a number), post-release, development and local segments; the parts of a local
  segment are numbers or lower-case words.
\<close>

datatype pre_letter = Alpha | Beta | Candidate

fun pre_letter_str :: "pre_letter \<Rightarrow> string" where
  "pre_letter_str Alpha = ''a''"
| "pre_letter_str Beta = ''b''"
| "pre_letter_str Candidate = ''rc''"

datatype local_part = LocalNumber nat | LocalWord string

record version =
  ver_epoch :: nat
  ver_release :: "nat list"
  ver_pre :: "(pre_letter \<times> nat) option"
  ver_post :: "nat option"
  ver_dev :: "nat option"
  ver_local :: "local_part list option"

text \<open>
  What \<^verbatim>\<open>version.parse\<close> gives for a string of numbers and dots, such as the four version
  literals of the module: the release alone.
\<close>

definition final_release :: "nat list \<Rightarrow> version" where
  "final_release numbers =
     \<lparr>ver_epoch = 0, ver_release = numbers, ver_pre = None, ver_post = None, ver_dev = None,
      ver_local = None\<rparr>"

text \<open>
  The library compares two versions by their keys, which are tuples. Python compares two
  tuples at the first position where they differ, and by their lengths when there is none;
  the components of a key are totally ordered, so the six operators are read off one
  three-way comparison. \<open>Infinity\<close> is above every value and \<open>NegativeInfinity\<close> below.
\<close>

datatype cmp = Below | Same | Above

datatype 'a extended = NegativeInfinity | Finite 'a | Infinity

definition then_cmp :: "cmp \<Rightarrow> cmp \<Rightarrow> cmp" where
  "then_cmp first rest = (case first of Same \<Rightarrow> rest | _ \<Rightarrow> first)"

definition compare_nat :: "nat \<Rightarrow> nat \<Rightarrow> cmp" where
  "compare_nat a b = (if a = b then Same else if a < b then Below else Above)"

fun compare_tuple :: "('a \<Rightarrow> 'a \<Rightarrow> cmp) \<Rightarrow> 'a list \<Rightarrow> 'a list \<Rightarrow> cmp" where
  "compare_tuple c [] [] = Same"
| "compare_tuple c [] (y # ys) = Below"
| "compare_tuple c (x # xs) [] = Above"
| "compare_tuple c (x # xs) (y # ys) = then_cmp (c x y) (compare_tuple c xs ys)"

fun compare_extended :: "('a \<Rightarrow> 'a \<Rightarrow> cmp) \<Rightarrow> 'a extended \<Rightarrow> 'a extended \<Rightarrow> cmp" where
  "compare_extended c NegativeInfinity NegativeInfinity = Same"
| "compare_extended c NegativeInfinity _ = Below"
| "compare_extended c _ NegativeInfinity = Above"
| "compare_extended c Infinity Infinity = Same"
| "compare_extended c Infinity _ = Above"
| "compare_extended c _ Infinity = Below"
| "compare_extended c (Finite a) (Finite b) = c a b"

text \<open>Strings are compared character by character, by code point.\<close>

definition compare_char :: "char \<Rightarrow> char \<Rightarrow> cmp" where
  "compare_char a b = compare_nat (of_char a) (of_char b)"

definition compare_string :: "string \<Rightarrow> string \<Rightarrow> cmp" where
  "compare_string s t = compare_tuple compare_char s t"

text \<open>A pre-release is the pair of its letter, a string, and its number.\<close>

fun compare_pre :: "pre_letter \<times> nat \<Rightarrow> pre_letter \<times> nat \<Rightarrow> cmp" where
  "compare_pre (l, n) (l', n') =
     then_cmp (compare_string (pre_letter_str l) (pre_letter_str l')) (compare_nat n n')"

text \<open>
  In the key, a number \<open>i\<close> of a local segment is the pair \<^verbatim>\<open>(i, "")\<close> and a word \<open>w\<close> the pair
  \<^verbatim>\<open>(NegativeInfinity, w)\<close>: words are below numbers.
\<close>

fun compare_local_part :: "local_part \<Rightarrow> local_part \<Rightarrow> cmp" where
  "compare_local_part (LocalNumber i) (LocalNumber j) = compare_nat i j"
| "compare_local_part (LocalWord s) (LocalWord t) = compare_string s t"
| "compare_local_part (LocalWord s) (LocalNumber j) = Below"
| "compare_local_part (LocalNumber i) (LocalWord t) = Above"

text \<open>
  \<^verbatim>\<open>_cmpkey\<close>: the release loses its trailing zeros; a version with a development segment
  and neither a pre-release nor a post-release sorts before every pre-release; a version
  without a pre-release sorts after them; a missing post-release or local segment sorts
  first, a missing development segment last. The words \<^verbatim>\<open>post\<close> and \<^verbatim>\<open>dev\<close> that the key pairs
  with the numbers are the same in every key and are left out.
\<close>

type_synonym version_key =
  "nat \<times> nat list \<times> (pre_letter \<times> nat) extended \<times> nat extended \<times> nat extended
   \<times> local_part list extended"

definition version_key :: "version \<Rightarrow> version_key" where
  "version_key v =
     (ver_epoch v,
      rev (dropWhile (\<lambda>x. x = 0) (rev (ver_release v))),
      (case ver_pre v of
         None \<Rightarrow> (if ver_post v = None \<and> ver_dev v \<noteq> None then NegativeInfinity else Infinity)
       | Some p \<Rightarrow> Finite p),
      (case ver_post v of None \<Rightarrow> NegativeInfinity | Some n \<Rightarrow> Finite n),
      (case ver_dev v of None \<Rightarrow> Infinity | Some n \<Rightarrow> Finite n),
      (case ver_local v of None \<Rightarrow> NegativeInfinity | Some parts \<Rightarrow> Finite parts))"

fun compare_key :: "version_key \<Rightarrow> version_key \<Rightarrow> cmp" where
  "compare_key (e, r, p, q, d, l) (e', r', p', q', d', l') =
     then_cmp (compare_nat e e')
    (then_cmp (compare_tuple compare_nat r r')
    (then_cmp (compare_extended compare_pre p p')
    (then_cmp (compare_extended compare_nat q q')
    (then_cmp (compare_extended compare_nat d d')
              (compare_extended (compare_tuple compare_local_part) l l')))))"

definition version_compare :: "version \<Rightarrow> version \<Rightarrow> cmp" where
  "version_compare v w = compare_key (version_key v) (version_key w)"

definition version_lt :: "version \<Rightarrow> version \<Rightarrow> bool" where
  "version_lt v w = (version_compare v w = Below)"

definition version_le :: "version \<Rightarrow> version \<Rightarrow> bool" where
  "version_le v w = (version_compare v w \<noteq> Above)"

definition version_gt :: "version \<Rightarrow> version \<Rightarrow> bool" where
  "version_gt v w = (version_compare v w = Above)"

definition version_ge :: "version \<Rightarrow> version \<Rightarrow> bool" where
  "version_ge v w = (version_compare v w \<noteq> Below)"

definition version_eq :: "version \<Rightarrow> version \<Rightarrow> bool" where
  "version_eq v w = (version_key v = version_key w)"

text \<open>\<^verbatim>\<open>str\<close> of a version, as \<^verbatim>\<open>Version.__str__\<close> builds it.\<close>

fun local_part_str :: "local_part \<Rightarrow> string" where
  "local_part_str (LocalNumber i) = string_of_nat i"
| "local_part_str (LocalWord w) = w"

definition version_str :: "version \<Rightarrow> string" where
  "version_str v =
     (if ver_epoch v \<noteq> 0 then string_of_nat (ver_epoch v) @ ''!'' else [])
     @ join ''.'' (map string_of_nat (ver_release v))
     @ (case ver_pre v of None \<Rightarrow> [] | Some (l, n) \<Rightarrow> pre_letter_str l @ string_of_nat n)
     @ (case ver_post v of None \<Rightarrow> [] | Some n \<Rightarrow> ''.post'' @ string_of_nat n)
     @ (case ver_dev v of None \<Rightarrow> [] | Some n \<Rightarrow> ''.dev'' @ string_of_nat n)
     @ (case ver_local v of
          None \<Rightarrow> []
        | Some parts \<Rightarrow> ''+'' @ join ''.'' (map local_part_str parts))"

section \<open>The Diagnostic Reporter\<close>

text \<open>
  \<^verbatim>\<open>_handle_exception(e, mod_name, logger, message=None)\<close>, lines 8 to 22. The first
  argument of the model is the exception being handled when the call is made: the source
  reads it through \<^verbatim>\<open>exc_info=1\<close>, not through \<^verbatim>\<open>e\<close>. \<^verbatim>\<open>exit(1)\<close> raises \<^verbatim>\<open>SystemExit(1)\<close>, which
  no \<^verbatim>\<open>except Exception\<close> of the module catches: the outcome is \<open>Exits 1\<close>.
\<close>

definition handle_exception :: "exn option \<Rightarrow> exn \<Rightarrow> string \<Rightarrow> pyval \<Rightarrow> 'a run" where
  "handle_exception handling e mod_name message =
     (let red_color = CHR 0x1B # ''[31m'';
          reset_color = CHR 0x1B # ''[0m'';
          message = (if message = PNone
                     then PStr ''Please ensure it has been installed correctly.''
                     else message)
      in ([Log DEBUG ''Exception'' (ExcInfo handling),
           Log ERROR (exn_name e @ '': '' @ exn_str e) NoExcInfo,
           Log ERROR (red_color @ ''<'' @ mod_name @ ''> test failed!'' @ [CHR 0x0A]
                      @ py_str message @ reset_color) NoExcInfo],
          Exits 1))"

section \<open>The environment of a run\<close>

text \<open>
  The attributes that the module reads from a loaded \<^verbatim>\<open>transformers\<close> configuration:
  \<^verbatim>\<open>quantization_config\<close>, a dictionary when present, and \<^verbatim>\<open>transformers_version\<close>, a
  string when present.
\<close>

record hf_config =
  quantization_config :: "(string \<times> pyval) list option"
  transformers_version :: "string option"

text \<open>
  A \<^verbatim>\<open>torch.dtype\<close>: \<^verbatim>\<open>torch.bfloat16\<close>, the one the module compares with, or another one,
  given by what \<^verbatim>\<open>str\<close> prints for it.
\<close>

datatype torch_dtype = Bfloat16 | OtherDtype string

fun dtype_str :: "torch_dtype \<Rightarrow> string" where
  "dtype_str Bfloat16 = ''torch.bfloat16''"
| "dtype_str (OtherDtype name) = name"

record model_config =
  model_dtype :: torch_dtype

text \<open>
  What each third-party call does when the module makes it. \<open>None\<close> and \<open>Inr\<close> are a normal
  return, \<open>Some e\<close> and \<open>Inl e\<close> the exception raised.
  \<^item> \<open>dlinfer_import\<close>: line 40.
  \<^item> \<open>torch_smoke\<close>: lines 51 to 56.
  \<^item> \<open>triton_import\<close>: lines 75 and 76, giving \<^verbatim>\<open>triton.__version__\<close>.
  \<^item> \<open>triton_smoke\<close>: lines 82 to 86.
  \<^item> \<open>get_device_capability\<close>: line 99, reached after the custom kernel has run on the
    device; it is taken to return.
  \<^item> \<open>transformers_import\<close>: line 160, giving \<^verbatim>\<open>transformers.__version__\<close>.
  \<^item> \<open>version_parse\<close>: \<^verbatim>\<open>packaging.version.parse\<close> on a string read at run time.
  \<^item> \<open>config_load\<close>: lines 178 to 180.
  \<^item> \<open>from_hf_config\<close>: lines 214 to 216.
  \<^item> \<open>is_bf16_supported\<close>: line 218.
  \<^item> \<open>awq_import\<close>, \<open>awq_ext_import\<close>: lines 134 and 139.
  \<^item> \<open>peft_load\<close>: lines 258 and 259.

  The imports that stand outside every \<^verbatim>\<open>try\<close> (lines 66, 152 and 208 to 211) and
  \<^verbatim>\<open>get_logger\<close> are taken to succeed. \<^verbatim>\<open>assert\<close> statements are executed. A probe is entered
  with no exception being handled.
\<close>

record env =
  dlinfer_import :: "exn option"
  torch_smoke :: "exn option"
  triton_import :: "exn + string"
  triton_smoke :: "exn option"
  get_device_capability :: "int \<times> int"
  transformers_import :: "exn + string"
  version_parse :: "string \<Rightarrow> exn + version"
  config_load :: "string \<Rightarrow> bool \<Rightarrow> exn + hf_config"
  from_hf_config :: "hf_config \<Rightarrow> string \<Rightarrow> string \<Rightarrow> exn + model_config"
  is_bf16_supported :: "string \<Rightarrow> exn + bool"
  awq_import :: "exn option"
  awq_ext_import :: "exn option"
  peft_load :: "string \<Rightarrow> exn option"

section \<open>The environment probes\<close>

subsection \<open>Backend and runtime\<close>

definition deeplink_device_type_list :: "string list" where
  "deeplink_device_type_list = [''ascend'', ''npu'', ''maca'']"

definition try_import_deeplink :: "env \<Rightarrow> string \<Rightarrow> unit run" where
  "try_import_deeplink env device_type =
     (if device_type \<in> set deeplink_device_type_list then
        after [Ext DlinferImport]
          (case dlinfer_import env of
             None \<Rightarrow> returns ()
           | Some e \<Rightarrow> handle_exception (Some e) e ''PyTorch'' PNone)
      else returns ())"

definition check_env_deeplink :: "env \<Rightarrow> string \<Rightarrow> unit run" where
  "check_env_deeplink env device_type = try_import_deeplink env device_type"

definition check_env_torch :: "env \<Rightarrow> unit run" where
  "check_env_torch env =
     after [Log DEBUG ''Checking <PyTorch> environment.'' NoExcInfo, Ext TorchSmoke]
       (case torch_smoke env of
          None \<Rightarrow> returns ()
        | Some e \<Rightarrow> handle_exception (Some e) e ''PyTorch'' PNone)"

subsection \<open>Kernel compiler\<close>

definition MAX_TRITON_VERSION :: string where
  "MAX_TRITON_VERSION = ''3.0.0''"

text \<open>\<^verbatim>\<open>version.parse(MAX_TRITON_VERSION)\<close> and \<^verbatim>\<open>version.parse('2.3.1')\<close>.\<close>

definition max_triton_version :: version where
  "max_triton_version = final_release [3, 0, 0]"

definition TRITON_VER_231 :: version where
  "TRITON_VER_231 = final_release [2, 3, 1]"

definition triton_msg :: string where
  "triton_msg =
     ''Please ensure that your device is functioning properly with <Triton>.'' @ [CHR 0x0A]
     @ ''You can verify your environment by running ''
     @ ''`python -m lmdeploy.pytorch.check_env.triton_custom_add`.''"

definition ptxas_error :: string where
  "ptxas_error = ''device kernel image is invalid''"

definition ptxas_msg :: string where
  "ptxas_msg =
     ''This Error might caused by mismatching between NVIDIA Driver and nvcc compiler. ''
     @ [CHR 0x0A]
     @ ''Try solution https://github.com/triton-lang/triton/issues/1955#issuecomment-1929908209''
     @ '' or reinstall the driver.''"

text \<open>
  The two \<^verbatim>\<open>except\<close> clauses of \<^verbatim>\<open>check_env_triton\<close>, lines 87 to 96. An exception that the
  first clause raises itself (\<^verbatim>\<open>ptxas_error in e.args[0]\<close> on a first argument that is no
  container) is not caught by the second clause: it leaves the probe.
\<close>

definition triton_except :: "exn \<Rightarrow> unit run" where
  "triton_except e =
     (if exn_class e = RuntimeErrorClass then
        (if length (exn_args e) > 0 then
           (case py_in ptxas_error (exn_args e ! 0) of
              Inl type_err \<Rightarrow> raises type_err
            | Inr found \<Rightarrow>
                handle_exception (Some e) e ''Triton''
                  (PStr (if found then ptxas_msg else triton_msg)))
         else handle_exception (Some e) e ''Triton'' (PStr triton_msg))
      else handle_exception (Some e) e ''Triton'' (PStr triton_msg))"

definition capability_err :: exn where
  "capability_err =
     (let text = ''Attention triton kernel does not fully support ''
                 @ ''triton<3.0.0 on device with capability<8. ''
                 @ ''Please upgrade your triton version.''
      in \<lparr>exn_class = RuntimeErrorClass, exn_name = ''RuntimeError'',
          exn_args = [PStr text], exn_str = text\<rparr>)"

definition check_env_triton :: "env \<Rightarrow> string \<Rightarrow> unit run" where
  "check_env_triton env device =
     after [Log DEBUG ''Checking <Triton> environment.'' NoExcInfo, Ext TritonImport]
       (case triton_import env of
          Inl e \<Rightarrow> triton_except e
        | Inr triton_version_string \<Rightarrow>
            (case version_parse env triton_version_string of
               Inl e \<Rightarrow> triton_except e
             | Inr triton_version \<Rightarrow>
                 after ((if version_gt triton_version max_triton_version
                         then [Log WARNING (''Engine has not been tested on triton>''
                                            @ MAX_TRITON_VERSION @ ''.'') NoExcInfo]
                         else [])
                        @ [Ext TritonSmoke])
                   (case triton_smoke env of
                      Some e \<Rightarrow> triton_except e
                    | None \<Rightarrow>
                        if device = ''cuda'' then
                          after [Ext DeviceCapability]
                            (let device_cap = get_device_capability env in
                             if fst device_cap \<le> 7 then
                               if version_le triton_version TRITON_VER_231
                               then handle_exception None capability_err ''Triton'' PNone
                               else returns ()
                             else returns ())
                        else returns ())))"

definition check_env :: "env \<Rightarrow> string \<Rightarrow> unit run" where
  "check_env env device_type =
     after [Log INFO ''Checking environment for PyTorch Engine.'' NoExcInfo]
       (then_run (check_env_deeplink env device_type) (\<lambda>_.
        then_run (check_env_torch env) (\<lambda>_.
        if device_type = ''cuda'' then check_env_triton env ''cuda'' else returns ())))"

section \<open>The model probes\<close>

definition MIN_TRANSFORMERS_VERSION :: string where
  "MIN_TRANSFORMERS_VERSION = ''4.33.0''"

definition MAX_TRANSFORMERS_VERSION :: string where
  "MAX_TRANSFORMERS_VERSION = ''4.44.1''"

text \<open>
  \<^verbatim>\<open>version.parse(MIN_TRANSFORMERS_VERSION)\<close> and \<^verbatim>\<open>version.parse(MAX_TRANSFORMERS_VERSION)\<close>.
\<close>

definition min_version :: version where
  "min_version = final_release [4, 33, 0]"

definition max_version :: version where
  "max_version = final_release [4, 44, 1]"

subsection \<open>Quantization extension\<close>

definition awq_ext_warning :: event where
  "awq_ext_warning =
     Log WARNING (''Failed to import `awq_ext`. ''
                  @ ''Try reinstall it from source: ''
                  @ ''https://github.com/casper-hansen/AutoAWQ_kernels'') NoExcInfo"

text \<open>
  \<^verbatim>\<open>check_awq(hf_config, device_type)\<close>, lines 125 to 144.
  \<^verbatim>\<open>getattr(hf_config, 'quantization_config', dict())\<close> is the empty dictionary when the
  attribute is absent, and \<^verbatim>\<open>.get('quant_method', None)\<close> is \<^verbatim>\<open>None\<close> when the key is.
\<close>

definition check_awq :: "env \<Rightarrow> hf_config \<Rightarrow> string \<Rightarrow> unit run" where
  "check_awq env hf_config device_type =
     (if device_type = ''cuda'' then
        (let quantization_config_dict =
               (case quantization_config hf_config of None \<Rightarrow> [] | Some d \<Rightarrow> d);
             quant_method =
               (case map_of quantization_config_dict ''quant_method'' of
                  None \<Rightarrow> PNone
                | Some v \<Rightarrow> v)
         in if quant_method \<noteq> PStr ''awq'' then returns ()
            else
              after [Ext AwqImport]
                (case awq_import env of
                   Some e \<Rightarrow> handle_exception (Some e) e ''autoawq'' PNone
                 | None \<Rightarrow>
                     after [Ext AwqExtImport]
                       (case awq_ext_import env of
                          None \<Rightarrow> returns ()
                        | Some e \<Rightarrow>
                            after [Log DEBUG ''Exception:'' (ExcInfo (Some e)), awq_ext_warning]
                              (returns ()))))
      else returns ())"

subsection \<open>The four nested checks of \<^verbatim>\<open>check_transformers_version\<close>\<close>

text \<open>
  The nested functions \<^verbatim>\<open>__check_transformers_version\<close>, \<^verbatim>\<open>__check_config\<close>,
  \<^verbatim>\<open>__check_model_transformers_version\<close> and \<^verbatim>\<open>__check_model_dtype_support\<close> carry the prefix
  \<open>inner_\<close> here; the variables of the enclosing function that they read are parameters.
\<close>

definition inner_check_transformers_version :: "env \<Rightarrow> version run" where
  "inner_check_transformers_version env =
     after [Log DEBUG ''Checking <transformers> version.'' NoExcInfo, Ext TransformersImport]
       (case transformers_import env of
          Inl e \<Rightarrow> handle_exception (Some e) e ''transformers'' PNone
        | Inr transformers_version_string \<Rightarrow>
            (case version_parse env transformers_version_string of
               Inl e \<Rightarrow> handle_exception (Some e) e ''transformers'' PNone
             | Inr trans_version \<Rightarrow>
                 if version_lt trans_version min_version \<or> version_gt trans_version max_version
                 then after [Log WARNING (''LMDeploy requires transformers version: ''
                                          @ ''['' @ MIN_TRANSFORMERS_VERSION @ '' ~ ''
                                          @ MAX_TRANSFORMERS_VERSION @ ''], ''
                                          @ ''but found version: ''
                                          @ transformers_version_string) NoExcInfo]
                        (returns trans_version)
                 else returns trans_version))"

definition inner_check_config :: "env \<Rightarrow> string \<Rightarrow> bool \<Rightarrow> version \<Rightarrow> hf_config run" where
  "inner_check_config env model_path trust_remote_code trans_version =
     after [Log DEBUG ''Checking <Model> AutoConfig.from_pretrained.'' NoExcInfo,
            Ext (ConfigLoad model_path trust_remote_code)]
       (case config_load env model_path trust_remote_code of
          Inr config \<Rightarrow> returns config
        | Inl e \<Rightarrow>
            (let message = ''Load model config with transformers=='' @ version_str trans_version
                           @ '' failed. ''
                           @ ''Please make sure model can be loaded with transformers API.''
             in handle_exception (Some e) e ''transformers'' (PStr message)))"

definition assertion_error :: "string \<Rightarrow> exn" where
  "assertion_error text =
     \<lparr>exn_class = AssertionErrorClass, exn_name = ''AssertionError'',
      exn_args = [PStr text], exn_str = text\<rparr>"

text \<open>
  The message of the handler of \<^verbatim>\<open>__check_model_transformers_version\<close>, lines 199 to 201;
  \<open>required\<close> is what \<^verbatim>\<open>{model_trans_version}\<close> prints.
\<close>

definition version_mismatch_message :: "string \<Rightarrow> string \<Rightarrow> version \<Rightarrow> string" where
  "version_mismatch_message model_path required trans_version =
     ''model `'' @ model_path @ ''` requires ''
     @ ''transformers version '' @ required @ '' ''
     @ ''but transformers '' @ version_str trans_version @ '' is installed.''"

text \<open>
  When \<^verbatim>\<open>version.parse\<close> fails, \<^verbatim>\<open>model_trans_version\<close> is still the string of the config;
  when the assertion fails, it is the parsed version.
\<close>

definition inner_check_model_transformers_version ::
  "env \<Rightarrow> string \<Rightarrow> hf_config \<Rightarrow> version \<Rightarrow> unit run" where
  "inner_check_model_transformers_version env model_path config trans_version =
     after [Log DEBUG ''Checking <Model> required transformers version.'' NoExcInfo]
       (case transformers_version config of
          None \<Rightarrow> returns ()
        | Some declared \<Rightarrow>
            (case version_parse env declared of
               Inl e \<Rightarrow>
                 handle_exception (Some e) e ''transformers''
                   (PStr (version_mismatch_message model_path declared trans_version))
             | Inr model_trans_version \<Rightarrow>
                 if version_ge trans_version model_trans_version then returns ()
                 else
                   (let e = assertion_error ''Version mismatch.''
                    in handle_exception (Some e) e ''transformers''
                         (PStr (version_mismatch_message model_path
                                  (version_str model_trans_version) trans_version)))))"

text \<open>
  A read of the local variable \<^verbatim>\<open>model_config\<close> before it is assigned (the text is
  CPython's, from 3.11 on).
\<close>

definition unbound_local_error :: "string \<Rightarrow> exn" where
  "unbound_local_error name =
     (let text = ''cannot access local variable '' @ [CHR 0x27] @ name @ [CHR 0x27]
                 @ '' where it is not associated with a value''
      in \<lparr>exn_class = ExceptionClass, exn_name = ''UnboundLocalError'',
          exn_args = [PStr text], exn_str = text\<rparr>)"

text \<open>
  The two \<^verbatim>\<open>except\<close> clauses of \<^verbatim>\<open>__check_model_dtype_support\<close>, lines 220 to 230. The second
  argument is \<^verbatim>\<open>model_config\<close> when line 214 has assigned it. The first clause reads
  \<^verbatim>\<open>model_config.dtype\<close>; the second passes a tuple of two strings as the message.
\<close>

definition dtype_except :: "exn \<Rightarrow> model_config option \<Rightarrow> model_config run" where
  "dtype_except e assigned =
     (if exn_class e = AssertionErrorClass then
        (case assigned of
           None \<Rightarrow> raises (unbound_local_error ''model_config'')
         | Some model_config \<Rightarrow>
             (let message = ''Your device does not support `''
                            @ dtype_str (model_dtype model_config) @ ''`. ''
                            @ ''You can set `dtype` to float16 in PyTorchEngineConfig or ''
                            @ ''`--dtype float16` to api_server.'' @ [CHR 0x0A]
                            @ ''Note that this might have negative effect!''
              in handle_exception (Some e) e ''Model'' (PStr message)))
      else
        (let message = PTuple [PStr (''Checking failed with error '' @ exn_str e),
                               PStr ''Please send issue to LMDeploy with error logs.'']
         in handle_exception (Some e) e ''Model'' message))"

definition inner_check_model_dtype_support ::
  "env \<Rightarrow> string \<Rightarrow> string \<Rightarrow> hf_config \<Rightarrow> string \<Rightarrow> model_config run" where
  "inner_check_model_dtype_support env model_path dtype_arg config device_type =
     after [Log DEBUG ''Checking <Model> dtype support.'' NoExcInfo,
            Ext (FromHfConfig model_path dtype_arg)]
       (case from_hf_config env config model_path dtype_arg of
          Inl e \<Rightarrow> dtype_except e None
        | Inr model_config \<Rightarrow>
            if model_dtype model_config = Bfloat16 then
              after [Ext (Bf16Query device_type)]
                (case is_bf16_supported env device_type of
                   Inl e \<Rightarrow> dtype_except e (Some model_config)
                 | Inr supported \<Rightarrow>
                     if supported then returns model_config
                     else dtype_except (assertion_error ''bf16 is not supported on your device'')
                            (Some model_config))
            else returns model_config)"

definition check_transformers_version ::
  "env \<Rightarrow> string \<Rightarrow> bool \<Rightarrow> string \<Rightarrow> string \<Rightarrow> unit run" where
  "check_transformers_version env model_path trust_remote_code dtype_arg device_type =
     then_run (inner_check_transformers_version env) (\<lambda>trans_version.
     then_run (inner_check_config env model_path trust_remote_code trans_version) (\<lambda>config.
     then_run (inner_check_model_transformers_version env model_path config trans_version) (\<lambda>_.
     then_run (inner_check_model_dtype_support env model_path dtype_arg config device_type) (\<lambda>_.
     check_awq env config device_type))))"

definition check_model :: "env \<Rightarrow> string \<Rightarrow> bool \<Rightarrow> string \<Rightarrow> string \<Rightarrow> unit run" where
  "check_model env model_path trust_remote_code dtype_arg device_type =
     after [Log INFO ''Checking model.'' NoExcInfo]
       (check_transformers_version env model_path trust_remote_code dtype_arg device_type)"

section \<open>The adapter probes\<close>

definition adapter_message :: string where
  "adapter_message =
     ''Please make sure the adapter can be loaded with ''
     @ ''`peft.PeftConfig.from_pretrained`'' @ [CHR 0x0A]"

definition adapter_hint :: string where
  "adapter_hint = ''Or try remove all unexpected keywords '' @ ''in `adapter_config.json`.''"

definition unexpected_keyword :: string where
  "unexpected_keyword = ''got an unexpected keyword argument''"

text \<open>
  \<^verbatim>\<open>check_adapter(path)\<close>, lines 252 to 267. \<^verbatim>\<open>err_msg\<close> is the empty string or the first
  argument of the exception, whatever its type; the \<^verbatim>\<open>in\<close> test on it is made inside the
  handler, so an exception that the test raises leaves the probe.
\<close>

definition check_adapter :: "env \<Rightarrow> string \<Rightarrow> unit run" where
  "check_adapter env path =
     after [Log DEBUG (''Checking <Adapter>: '' @ path @ ''.'') NoExcInfo, Ext (PeftLoad path)]
       (case peft_load env path of
          None \<Rightarrow> returns ()
        | Some e \<Rightarrow>
            (let err_msg = (if length (exn_args e) = 0 then PStr [] else exn_args e ! 0)
             in case py_in unexpected_keyword err_msg of
                  Inl type_err \<Rightarrow> raises type_err
                | Inr found \<Rightarrow>
                    handle_exception (Some e) e ''Model''
                      (PStr (if found then adapter_message @ adapter_hint
                             else adapter_message))))"

text \<open>The \<^verbatim>\<open>for\<close> loop of \<^verbatim>\<open>check_adapters\<close>, lines 276 and 277.\<close>

fun check_each_adapter :: "env \<Rightarrow> string list \<Rightarrow> unit run" where
  "check_each_adapter env [] = returns ()"
| "check_each_adapter env (path # paths) =
     then_run (check_adapter env path) (\<lambda>_. check_each_adapter env paths)"

definition check_adapters :: "env \<Rightarrow> string list \<Rightarrow> unit run" where
  "check_adapters env adapter_paths =
     (if length adapter_paths \<le> 0 then returns ()
      else after [Log INFO ''Checking adapters.'' NoExcInfo]
             (check_each_adapter env adapter_paths))"

section \<open>Example runs\<close>

text \<open>
  A host where every third-party call succeeds: a device of compute capability 7.0 with
  triton 2.3.1 and transformers 4.44.1, and a model whose config declares neither a
  quantization method nor a version. The examples below change one call at a time.
\<close>

definition invalid_version :: "string \<Rightarrow> exn" where
  "invalid_version s =
     (let text = ''Invalid version: '' @ [CHR 0x27] @ s @ [CHR 0x27]
      in \<lparr>exn_class = ExceptionClass, exn_name = ''InvalidVersion'',
          exn_args = [PStr text], exn_str = text\<rparr>)"

definition example_parse :: "string \<Rightarrow> exn + version" where
  "example_parse s =
     (case map_of [(''2.3.1'', final_release [2, 3, 1]), (''2.3.2'', final_release [2, 3, 2]),
                   (''3.1.0'', final_release [3, 1, 0]), (''4.33.0'', final_release [4, 33, 0]),
                   (''4.44.1'', final_release [4, 44, 1]), (''4.45.0'', final_release [4, 45, 0]),
                   (''4.50.0'', final_release [4, 50, 0]),
                   (''2.3.1.post1'', (final_release [2, 3, 1])\<lparr>ver_post := Some 1\<rparr>),
                   (''4.33.0.dev0'', (final_release [4, 33, 0])\<lparr>ver_dev := Some 0\<rparr>),
                   (''4.45.0.dev0'', (final_release [4, 45, 0])\<lparr>ver_dev := Some 0\<rparr>)] s of
        Some v \<Rightarrow> Inr v
      | None \<Rightarrow> Inl (invalid_version s))"

definition plain_config :: hf_config where
  "plain_config = \<lparr>quantization_config = None, transformers_version = None\<rparr>"

definition awq_config :: hf_config where
  "awq_config =
     \<lparr>quantization_config = Some [(''bits'', PInt 4), (''quant_method'', PStr ''awq'')],
      transformers_version = Some ''4.44.1''\<rparr>"

definition newer_config :: hf_config where
  "newer_config = \<lparr>quantization_config = None, transformers_version = Some ''4.50.0''\<rparr>"

definition release_config :: hf_config where
  "release_config = \<lparr>quantization_config = None, transformers_version = Some ''4.45.0''\<rparr>"

definition good_host :: env where
  "good_host =
     \<lparr>dlinfer_import = None,
      torch_smoke = None,
      triton_import = Inr ''2.3.1'',
      triton_smoke = None,
      get_device_capability = (7, 0),
      transformers_import = Inr ''4.44.1'',
      version_parse = example_parse,
      config_load = (\<lambda>model_path trust_remote_code. Inr plain_config),
      from_hf_config =
        (\<lambda>config model_path dtype_arg. Inr \<lparr>model_dtype = OtherDtype ''torch.float16''\<rparr>),
      is_bf16_supported = (\<lambda>device_type. Inr True),
      awq_import = None,
      awq_ext_import = None,
      peft_load = (\<lambda>path. None)\<rparr>"

text \<open>\<^verbatim>\<open>ModuleNotFoundError("No module named 'awq'")\<close> and the same for \<^verbatim>\<open>awq_ext\<close>.\<close>

definition module_not_found :: "string \<Rightarrow> exn" where
  "module_not_found name =
     (let text = ''No module named '' @ [CHR 0x27] @ name @ [CHR 0x27]
      in \<lparr>exn_class = ExceptionClass, exn_name = ''ModuleNotFoundError'',
          exn_args = [PStr text], exn_str = text\<rparr>)"

text \<open>
  \<^verbatim>\<open>RuntimeError('Triton Error [CUDA]: device kernel image is invalid')\<close>, and an exception
  of another class with the same text.
\<close>

definition kernel_image_runtime_error :: exn where
  "kernel_image_runtime_error =
     \<lparr>exn_class = RuntimeErrorClass, exn_name = ''RuntimeError'',
      exn_args = [PStr ''Triton Error [CUDA]: device kernel image is invalid''],
      exn_str = ''Triton Error [CUDA]: device kernel image is invalid''\<rparr>"

definition kernel_image_other_error :: exn where
  "kernel_image_other_error =
     \<lparr>exn_class = ExceptionClass, exn_name = ''Exception'',
      exn_args = [PStr ''Triton Error [CUDA]: device kernel image is invalid''],
      exn_str = ''Triton Error [CUDA]: device kernel image is invalid''\<rparr>"

text \<open>
  \<^verbatim>\<open>PermissionError(13, 'Permission denied')\<close>, as \<^verbatim>\<open>open\<close> raises it on an
  \<^verbatim>\<open>adapter_config.json\<close> that the process may not read: its first argument is the number.
\<close>

definition permission_error :: exn where
  "permission_error =
     \<lparr>exn_class = ExceptionClass, exn_name = ''PermissionError'',
      exn_args = [PInt 13, PStr ''Permission denied''],
      exn_str = ''[Errno 13] Permission denied: '' @ [CHR 0x27]
                @ ''/adapters/a/adapter_config.json'' @ [CHR 0x27]\<rparr>"

text \<open>
  \<^verbatim>\<open>TypeError("PeftConfig.__init__() got an unexpected keyword argument 'foo'")\<close>, and an
  exception raised with no argument.
\<close>

definition unexpected_keyword_error :: exn where
  "unexpected_keyword_error =
     (let text = ''PeftConfig.__init__() got an unexpected keyword argument ''
                 @ [CHR 0x27] @ ''foo'' @ [CHR 0x27]
      in \<lparr>exn_class = ExceptionClass, exn_name = ''TypeError'',
          exn_args = [PStr text], exn_str = text\<rparr>)"

definition bare_error :: exn where
  "bare_error =
     \<lparr>exn_class = ExceptionClass, exn_name = ''ValueError'', exn_args = [], exn_str = []\<rparr>"

text \<open>An \<^verbatim>\<open>assert\<close> without a message that fails: \<^verbatim>\<open>AssertionError()\<close>.\<close>

definition failed_assertion :: exn where
  "failed_assertion =
     \<lparr>exn_class = AssertionErrorClass, exn_name = ''AssertionError'', exn_args = [],
      exn_str = []\<rparr>"

section \<open>Facts about the operators\<close>

text \<open>
  Each comparison of the key is the mirror of the exchanged one, and gives \<open>Same\<close> on
  equal values only.
\<close>

fun mirror :: "cmp \<Rightarrow> cmp" where
  "mirror Below = Above"
| "mirror Same = Same"
| "mirror Above = Below"

lemma compare_nat_mirror: "mirror (compare_nat a b) = compare_nat b a"
  by (auto simp add: compare_nat_def)

lemma compare_nat_same: "compare_nat a b = Same \<longleftrightarrow> a = b"
  by (simp add: compare_nat_def)

lemma then_cmp_mirror: "mirror (then_cmp a b) = then_cmp (mirror a) (mirror b)"
  by (cases a) (simp_all add: then_cmp_def)

lemma then_cmp_same: "then_cmp a b = Same \<longleftrightarrow> a = Same \<and> b = Same"
  by (cases a) (simp_all add: then_cmp_def)

lemma compare_tuple_mirror:
  assumes "\<And>x y. mirror (c x y) = c y x"
  shows "mirror (compare_tuple c xs ys) = compare_tuple c ys xs"
proof (induction xs arbitrary: ys)
  case Nil
  then show ?case by (cases ys) simp_all
next
  case (Cons x xs)
  then show ?case by (cases ys) (simp_all add: then_cmp_mirror assms)
qed

lemma compare_tuple_same:
  assumes "\<And>x y. c x y = Same \<longleftrightarrow> x = y"
  shows "compare_tuple c xs ys = Same \<longleftrightarrow> xs = ys"
proof (induction xs arbitrary: ys)
  case Nil
  then show ?case by (cases ys) simp_all
next
  case (Cons x xs)
  then show ?case by (cases ys) (simp_all add: then_cmp_same assms)
qed

lemma compare_extended_mirror:
  assumes "\<And>x y. mirror (c x y) = c y x"
  shows "mirror (compare_extended c a b) = compare_extended c b a"
  by (cases a; cases b) (simp_all add: assms)

lemma compare_extended_same:
  assumes "\<And>x y. c x y = Same \<longleftrightarrow> x = y"
  shows "compare_extended c a b = Same \<longleftrightarrow> a = b"
  by (cases a; cases b) (simp_all add: assms)

lemma compare_string_mirror: "mirror (compare_string s t) = compare_string t s"
  unfolding compare_string_def
  by (rule compare_tuple_mirror) (simp add: compare_char_def compare_nat_mirror)

lemma compare_string_same: "compare_string s t = Same \<longleftrightarrow> s = t"
  unfolding compare_string_def
  by (rule compare_tuple_same) (simp add: compare_char_def compare_nat_same)

lemma pre_letter_str_inj: "pre_letter_str l = pre_letter_str l' \<longleftrightarrow> l = l'"
  by (cases l; cases l') simp_all

lemma compare_pre_mirror: "mirror (compare_pre p q) = compare_pre q p"
  by (cases p; cases q) (simp add: compare_string_mirror compare_nat_mirror then_cmp_mirror)

lemma compare_pre_same: "compare_pre p q = Same \<longleftrightarrow> p = q"
  by (cases p; cases q)
    (simp add: then_cmp_same compare_string_same compare_nat_same pre_letter_str_inj)

lemma compare_local_part_mirror: "mirror (compare_local_part a b) = compare_local_part b a"
  by (cases a; cases b) (simp_all add: compare_nat_mirror compare_string_mirror)

lemma compare_local_part_same: "compare_local_part a b = Same \<longleftrightarrow> a = b"
  by (cases a; cases b) (simp_all add: compare_nat_same compare_string_same)

lemma compare_key_mirror: "mirror (compare_key k k') = compare_key k' k"
proof -
  obtain e r p q d l where k: "k = (e, r, p, q, d, l)" by (cases k)
  obtain e' r' p' q' d' l' where k': "k' = (e', r', p', q', d', l')" by (cases k')
  have release: "mirror (compare_tuple compare_nat r r') = compare_tuple compare_nat r' r"
    by (rule compare_tuple_mirror) (rule compare_nat_mirror)
  have pre: "mirror (compare_extended compare_pre p p') = compare_extended compare_pre p' p"
    by (rule compare_extended_mirror) (rule compare_pre_mirror)
  have post: "mirror (compare_extended compare_nat q q') = compare_extended compare_nat q' q"
    by (rule compare_extended_mirror) (rule compare_nat_mirror)
  have dev: "mirror (compare_extended compare_nat d d') = compare_extended compare_nat d' d"
    by (rule compare_extended_mirror) (rule compare_nat_mirror)
  have parts: "\<And>x y. mirror (compare_tuple compare_local_part x y)
                 = compare_tuple compare_local_part y x"
    by (rule compare_tuple_mirror) (rule compare_local_part_mirror)
  have loc: "mirror (compare_extended (compare_tuple compare_local_part) l l')
               = compare_extended (compare_tuple compare_local_part) l' l"
    by (rule compare_extended_mirror) (rule parts)
  show ?thesis
    unfolding k k'
    by (simp add: then_cmp_mirror compare_nat_mirror release pre post dev loc)
qed

lemma compare_key_same: "compare_key k k' = Same \<longleftrightarrow> k = k'"
proof -
  obtain e r p q d l where k: "k = (e, r, p, q, d, l)" by (cases k)
  obtain e' r' p' q' d' l' where k': "k' = (e', r', p', q', d', l')" by (cases k')
  have release: "compare_tuple compare_nat r r' = Same \<longleftrightarrow> r = r'"
    by (rule compare_tuple_same) (rule compare_nat_same)
  have pre: "compare_extended compare_pre p p' = Same \<longleftrightarrow> p = p'"
    by (rule compare_extended_same) (rule compare_pre_same)
  have post: "compare_extended compare_nat q q' = Same \<longleftrightarrow> q = q'"
    by (rule compare_extended_same) (rule compare_nat_same)
  have dev: "compare_extended compare_nat d d' = Same \<longleftrightarrow> d = d'"
    by (rule compare_extended_same) (rule compare_nat_same)
  have parts: "\<And>x y. compare_tuple compare_local_part x y = Same \<longleftrightarrow> x = y"
    by (rule compare_tuple_same) (rule compare_local_part_same)
  have loc: "compare_extended (compare_tuple compare_local_part) l l' = Same \<longleftrightarrow> l = l'"
    by (rule compare_extended_same) (rule parts)
  show ?thesis
    unfolding k k'
    by (simp add: then_cmp_same compare_nat_same release pre post dev loc)
qed

text \<open>
  The four comparisons of versions are one order: \<open>>\<close> is \<open><\<close> with the arguments
  exchanged, \<open>\<ge>\<close> is the negation of \<open><\<close>, and \<open>\<le>\<close> is \<open><\<close> or equal keys.
\<close>

lemma version_compare_mirror: "mirror (version_compare v w) = version_compare w v"
  by (simp add: version_compare_def compare_key_mirror)

lemma version_gt_lt: "version_gt v w = version_lt w v"
proof -
  have "version_compare w v = mirror (version_compare v w)"
    by (simp add: version_compare_mirror)
  then show ?thesis
    by (cases "version_compare v w") (simp_all add: version_gt_def version_lt_def)
qed

lemma version_ge_not_lt: "version_ge v w = (\<not> version_lt v w)"
  by (simp add: version_ge_def version_lt_def)

lemma version_le_lt_eq: "version_le v w = (version_lt v w \<or> version_eq v w)"
proof -
  have "version_compare v w = Same \<longleftrightarrow> version_eq v w"
    by (simp add: version_compare_def version_eq_def compare_key_same)
  then show ?thesis
    by (cases "version_compare v w") (simp_all add: version_le_def version_lt_def)
qed

lemma version_ge_not_gt: "version_ge v w = (\<not> version_gt w v)"
  by (simp add: version_ge_not_lt version_gt_lt)

lemma version_eq_compare: "version_eq v v' \<Longrightarrow> version_compare v w = version_compare v' w"
  by (simp add: version_eq_def version_compare_def)

text \<open>The definitions that evaluate a comparison of two given versions.\<close>

lemmas version_eval =
  version_lt_def version_le_def version_gt_def version_ge_def version_eq_def
  version_compare_def version_key_def final_release_def compare_nat_def then_cmp_def
  compare_string_def compare_char_def

text \<open>On final releases of three numbers the order is the lexicographic one.\<close>

lemma version_lt_three:
  "version_lt (final_release [a, b, c]) (final_release [a', b', c'])
     \<longleftrightarrow> a < a' \<or> a = a' \<and> (b < b' \<or> b = b' \<and> c < c')"
  by (auto simp add: version_eval)

text \<open>
  A development release is below its final release, and a post-release above it, whatever
  the release.
\<close>

lemma version_dev_below_final:
  "version_lt (final_release r\<lparr>ver_dev := Some n\<rparr>) (final_release r)"
  by (simp add: version_eval compare_tuple_same [THEN iffD2] compare_nat_same)

lemma version_post_above_final:
  "version_gt (final_release r\<lparr>ver_post := Some n\<rparr>) (final_release r)"
  by (simp add: version_eval compare_tuple_same [THEN iffD2] compare_nat_same)

text \<open>\<open>contains\<close> is the contiguous-sublist relation.\<close>

lemma contains_sublist: "contains needle hay = sublist needle hay"
  by (induction hay) (simp_all add: sublist_Cons_right)

text \<open>
  \<^verbatim>\<open>repr\<close> escapes the no-break space (code point 160) and keeps a printable letter above
  ASCII (code point 233) as it is.
\<close>

lemma repr_string_no_break_space:
  "repr_string [CHR 0xA0] = [CHR 0x27, CHR 0x5C, CHR ''x'', CHR ''a'', CHR ''0'', CHR 0x27]"
  by (simp add: repr_string_def repr_char_def Let_def)

lemma repr_string_printable_letter: "repr_string [CHR 0xE9] = [CHR 0x27, CHR 0xE9, CHR 0x27]"
  by (simp add: repr_string_def repr_char_def Let_def)

lemma after_Nil: "after [] r = r"
  by (simp add: after_def)

lemma fst_after: "fst (after evs r) = evs @ fst r"
  by (simp add: after_def)

lemma snd_after: "snd (after evs r) = snd r"
  by (simp add: after_def)

lemma snd_returns: "snd (returns a) = Returns a"
  by (simp add: returns_def)

lemma snd_handle_exception: "snd (handle_exception handling e mod_name message) = Exits 1"
  by (simp add: handle_exception_def Let_def)

text \<open>
  The reporter on any call: three records, then exit status 1. The debug record carries
  the exception that is being handled, which is the reported one only when the call is made
  from its \<^verbatim>\<open>except\<close> block.
\<close>

lemma handle_exception_run:
  "handle_exception handling e mod_name message =
     ([Log DEBUG ''Exception'' (ExcInfo handling),
       Log ERROR (exn_name e @ '': '' @ exn_str e) NoExcInfo,
       Log ERROR (CHR 0x1B # ''[31m<'' @ mod_name @ ''> test failed!'' @ [CHR 0x0A]
                  @ py_str (if message = PNone
                            then PStr ''Please ensure it has been installed correctly.''
                            else message)
                  @ CHR 0x1B # ''[0m'') NoExcInfo],
      Exits 1)"
  by (simp add: handle_exception_def Let_def)

section \<open>The reporter at the capability gate\<close>

text \<open>
  Claim C4. The claim: on every call \<^verbatim>\<open>_handle_exception\<close> logs the full detail of the
  failure at debug level, logs its summary and the remediation text at error level, and exits
  with status 1; without a message the text is \<^verbatim>\<open>Please ensure it has been installed correctly.\<close>
  The two error records, the default text and the exit hold on every call
  (\<open>handle_exception_run\<close>). The debug record does not carry the failure on every call:
  \<^verbatim>\<open>exc_info=1\<close> attaches the exception that is being handled, and line 108 calls the reporter
  outside every \<^verbatim>\<open>except\<close> block, with a \<^verbatim>\<open>RuntimeError\<close> that was built and never raised. The
  run is \<^verbatim>\<open>check_env('cuda')\<close> on a host of compute capability 7.0 with triton 2.3.1 whose
  smoke tests pass: the debug record \<^verbatim>\<open>Exception\<close> carries no exception, not the
  \<^verbatim>\<open>RuntimeError\<close> that is reported.
\<close>

theorem capability_report_without_exc_info:
  "check_env good_host ''cuda'' =
     ([Log INFO ''Checking environment for PyTorch Engine.'' NoExcInfo,
       Log DEBUG ''Checking <PyTorch> environment.'' NoExcInfo, Ext TorchSmoke,
       Log DEBUG ''Checking <Triton> environment.'' NoExcInfo, Ext TritonImport,
       Ext TritonSmoke, Ext DeviceCapability,
       Log DEBUG ''Exception'' (ExcInfo None),
       Log ERROR (''RuntimeError: Attention triton kernel does not fully support ''
                  @ ''triton<3.0.0 on device with capability<8. ''
                  @ ''Please upgrade your triton version.'') NoExcInfo,
       Log ERROR (CHR 0x1B # ''[31m<Triton> test failed!'' @ [CHR 0x0A]
                  @ ''Please ensure it has been installed correctly.''
                  @ CHR 0x1B # ''[0m'') NoExcInfo],
      Exits 1)
   \<and> ExcInfo None \<noteq> ExcInfo (Some capability_err)"
proof -
  have v: "\<not> version_gt (final_release [2, 3, 1]) max_triton_version"
    "version_le (final_release [2, 3, 1]) TRITON_VER_231"
    by (simp_all add: version_eval max_triton_version_def TRITON_VER_231_def)
  show ?thesis
    using v
    by (simp add: check_env_def check_env_deeplink_def try_import_deeplink_def
        deeplink_device_type_list_def check_env_torch_def check_env_triton_def
        good_host_def example_parse_def then_run_def after_def returns_def
        handle_exception_def capability_err_def py_str_def Let_def)
qed

section \<open>Properties of the kernel-compiler probe\<close>

text \<open>
  Claim C1. In \<^verbatim>\<open>check_env_triton\<close>, on every run where the device is \<^verbatim>\<open>'cuda'\<close> and the
  import and smoke-test phase succeeds (triton is imported, its version parses and the
  custom kernel passes), the probe ends in the reporter with exit status 1 if and only if
  the major compute capability is at most 7 and the triton version is at most 2.3.1; in
  every other case it returns. Version 2.3.1 is at most 2.3.1 and version 2.3.2 is not.
  The run is given whole: the events before the test, then either the reporter's records
  for the \<^verbatim>\<open>RuntimeError\<close> of line 104 or nothing.
\<close>

theorem check_env_triton_capability_gate:
  assumes "triton_import env = Inr s"
    and "version_parse env s = Inr v"
    and "triton_smoke env = None"
  shows "check_env_triton env ''cuda'' =
           after ([Log DEBUG ''Checking <Triton> environment.'' NoExcInfo, Ext TritonImport]
                  @ (if version_gt v max_triton_version
                     then [Log WARNING ''Engine has not been tested on triton>3.0.0.'' NoExcInfo]
                     else [])
                  @ [Ext TritonSmoke, Ext DeviceCapability])
             (if fst (get_device_capability env) \<le> 7 \<and> version_le v TRITON_VER_231
              then handle_exception None capability_err ''Triton'' PNone
              else returns ())
         \<and> (snd (check_env_triton env ''cuda'') = Exits 1
              \<longleftrightarrow> fst (get_device_capability env) \<le> 7 \<and> version_le v TRITON_VER_231)
         \<and> (snd (check_env_triton env ''cuda'') = Returns ()
              \<longleftrightarrow> \<not> (fst (get_device_capability env) \<le> 7 \<and> version_le v TRITON_VER_231))
         \<and> version_le (final_release [2, 3, 1]) TRITON_VER_231
         \<and> \<not> version_le (final_release [2, 3, 2]) TRITON_VER_231"
proof -
  have run: "check_env_triton env ''cuda'' =
           after ([Log DEBUG ''Checking <Triton> environment.'' NoExcInfo, Ext TritonImport]
                  @ (if version_gt v max_triton_version
                     then [Log WARNING ''Engine has not been tested on triton>3.0.0.'' NoExcInfo]
                     else [])
                  @ [Ext TritonSmoke, Ext DeviceCapability])
             (if fst (get_device_capability env) \<le> 7 \<and> version_le v TRITON_VER_231
              then handle_exception None capability_err ''Triton'' PNone
              else returns ())"
    using assms by (simp add: check_env_triton_def after_def MAX_TRITON_VERSION_def Let_def)
  have exits: "snd (check_env_triton env ''cuda'') = Exits 1
              \<longleftrightarrow> fst (get_device_capability env) \<le> 7 \<and> version_le v TRITON_VER_231"
    unfolding run snd_after by (simp add: snd_handle_exception snd_returns)
  have rets: "snd (check_env_triton env ''cuda'') = Returns ()
              \<longleftrightarrow> \<not> (fst (get_device_capability env) \<le> 7 \<and> version_le v TRITON_VER_231)"
    unfolding run snd_after by (simp add: snd_handle_exception snd_returns)
  have at_231: "version_le (final_release [2, 3, 1]) TRITON_VER_231"
    by (simp add: version_eval TRITON_VER_231_def)
  have at_232: "\<not> version_le (final_release [2, 3, 2]) TRITON_VER_231"
    by (simp add: version_eval TRITON_VER_231_def)
  from run exits rets at_231 at_232 show ?thesis by blast
qed

text \<open>
  The boundary runs: capability 7.0 with triton 2.3.1 exits; capability 8.0 with
  triton 2.3.1 returns; capability 7.0 with triton 2.3.2 returns; capability 7.0 with
  triton 2.3.1.post1, which is above 2.3.1, returns.
\<close>

theorem check_env_triton_capability_gate_witness:
  "triton_import good_host = Inr ''2.3.1''
   \<and> version_parse good_host ''2.3.1'' = Inr (final_release [2, 3, 1])
   \<and> triton_smoke good_host = None
   \<and> get_device_capability good_host = (7, 0)
   \<and> check_env_triton good_host ''cuda'' =
       ([Log DEBUG ''Checking <Triton> environment.'' NoExcInfo, Ext TritonImport,
         Ext TritonSmoke, Ext DeviceCapability,
         Log DEBUG ''Exception'' (ExcInfo None),
         Log ERROR (''RuntimeError: Attention triton kernel does not fully support ''
                    @ ''triton<3.0.0 on device with capability<8. ''
                    @ ''Please upgrade your triton version.'') NoExcInfo,
         Log ERROR (CHR 0x1B # ''[31m<Triton> test failed!'' @ [CHR 0x0A]
                    @ ''Please ensure it has been installed correctly.''
                    @ CHR 0x1B # ''[0m'') NoExcInfo],
        Exits 1)
   \<and> check_env_triton (good_host\<lparr>get_device_capability := (8, 0)\<rparr>) ''cuda'' =
       ([Log DEBUG ''Checking <Triton> environment.'' NoExcInfo, Ext TritonImport,
         Ext TritonSmoke, Ext DeviceCapability],
        Returns ())
   \<and> check_env_triton (good_host\<lparr>triton_import := Inr ''2.3.2''\<rparr>) ''cuda'' =
       ([Log DEBUG ''Checking <Triton> environment.'' NoExcInfo, Ext TritonImport,
         Ext TritonSmoke, Ext DeviceCapability],
        Returns ())
   \<and> check_env_triton (good_host\<lparr>triton_import := Inr ''2.3.1.post1''\<rparr>) ''cuda'' =
       ([Log DEBUG ''Checking <Triton> environment.'' NoExcInfo, Ext TritonImport,
         Ext TritonSmoke, Ext DeviceCapability],
        Returns ())"
proof -
  let ?post1 = "good_host\<lparr>triton_import := Inr ''2.3.1.post1''\<rparr>"
  have i4: "triton_import ?post1 = Inr ''2.3.1.post1''"
    and s4: "triton_smoke ?post1 = None"
    and c4: "get_device_capability ?post1 = (7, 0)"
    by (simp_all add: good_host_def)
  have p4: "version_parse ?post1 ''2.3.1.post1''
              = Inr ((final_release [2, 3, 1])\<lparr>ver_post := Some 1\<rparr>)"
    by (simp add: good_host_def example_parse_def)
  have v4: "\<not> version_gt ((final_release [2, 3, 1])\<lparr>ver_post := Some 1\<rparr>) max_triton_version"
    "\<not> version_le ((final_release [2, 3, 1])\<lparr>ver_post := Some 1\<rparr>) TRITON_VER_231"
    by (simp_all add: version_eval max_triton_version_def TRITON_VER_231_def)
  have r4: "check_env_triton ?post1 ''cuda'' =
       ([Log DEBUG ''Checking <Triton> environment.'' NoExcInfo, Ext TritonImport,
         Ext TritonSmoke, Ext DeviceCapability],
        Returns ())"
    using check_env_triton_capability_gate [OF i4 p4 s4] c4 v4
    by (simp add: after_def returns_def)
  let ?cap8 = "good_host\<lparr>get_device_capability := (8, 0)\<rparr>"
  let ?v232 = "good_host\<lparr>triton_import := Inr ''2.3.2''\<rparr>"
  have i1: "triton_import good_host = Inr ''2.3.1''"
    and i2: "triton_import ?cap8 = Inr ''2.3.1''"
    and i3: "triton_import ?v232 = Inr ''2.3.2''"
    by (simp_all add: good_host_def)
  have p1: "version_parse good_host ''2.3.1'' = Inr (final_release [2, 3, 1])"
    and p2: "version_parse ?cap8 ''2.3.1'' = Inr (final_release [2, 3, 1])"
    and p3: "version_parse ?v232 ''2.3.2'' = Inr (final_release [2, 3, 2])"
    by (simp_all add: good_host_def example_parse_def)
  have s1: "triton_smoke good_host = None"
    and s2: "triton_smoke ?cap8 = None"
    and s3: "triton_smoke ?v232 = None"
    by (simp_all add: good_host_def)
  have c1: "get_device_capability good_host = (7, 0)"
    and c2: "get_device_capability ?cap8 = (8, 0)"
    and c3: "get_device_capability ?v232 = (7, 0)"
    by (simp_all add: good_host_def)
  have v: "\<not> version_gt (final_release [2, 3, 1]) max_triton_version"
    "\<not> version_gt (final_release [2, 3, 2]) max_triton_version"
    "version_le (final_release [2, 3, 1]) TRITON_VER_231"
    "\<not> version_le (final_release [2, 3, 2]) TRITON_VER_231"
    by (simp_all add: version_eval max_triton_version_def TRITON_VER_231_def)
  have r1: "check_env_triton good_host ''cuda'' =
       ([Log DEBUG ''Checking <Triton> environment.'' NoExcInfo, Ext TritonImport,
         Ext TritonSmoke, Ext DeviceCapability,
         Log DEBUG ''Exception'' (ExcInfo None),
         Log ERROR (''RuntimeError: Attention triton kernel does not fully support ''
                    @ ''triton<3.0.0 on device with capability<8. ''
                    @ ''Please upgrade your triton version.'') NoExcInfo,
         Log ERROR (CHR 0x1B # ''[31m<Triton> test failed!'' @ [CHR 0x0A]
                    @ ''Please ensure it has been installed correctly.''
                    @ CHR 0x1B # ''[0m'') NoExcInfo],
        Exits 1)"
    using check_env_triton_capability_gate [OF i1 p1 s1] c1 v
    by (simp add: after_def handle_exception_def capability_err_def py_str_def Let_def)
  have r2: "check_env_triton ?cap8 ''cuda'' =
       ([Log DEBUG ''Checking <Triton> environment.'' NoExcInfo, Ext TritonImport,
         Ext TritonSmoke, Ext DeviceCapability],
        Returns ())"
    using check_env_triton_capability_gate [OF i2 p2 s2] c2 v
    by (simp add: after_def returns_def)
  have r3: "check_env_triton ?v232 ''cuda'' =
       ([Log DEBUG ''Checking <Triton> environment.'' NoExcInfo, Ext TritonImport,
         Ext TritonSmoke, Ext DeviceCapability],
        Returns ())"
    using check_env_triton_capability_gate [OF i3 p3 s3] c3 v
    by (simp add: after_def returns_def)
  from i1 p1 s1 c1 r1 r2 r3 r4 show ?thesis by blast
qed

text \<open>
  The handler of the import and smoke-test phase, when the \<^verbatim>\<open>in\<close> test of line 89 is made
  on a string or not at all.
\<close>

lemma triton_except_run:
  assumes "exn_class e = RuntimeErrorClass \<Longrightarrow> exn_args e \<noteq> [] \<Longrightarrow> \<exists>text. exn_args e ! 0 = PStr text"
  shows "triton_except e =
           handle_exception (Some e) e ''Triton''
             (PStr (if exn_class e = RuntimeErrorClass \<and> exn_args e \<noteq> []
                       \<and> (\<exists>text. exn_args e ! 0 = PStr text \<and> contains ptxas_error text)
                    then ptxas_msg else triton_msg))"
proof (cases "exn_class e = RuntimeErrorClass \<and> exn_args e \<noteq> []")
  case True
  with assms obtain first where "exn_args e ! 0 = PStr first" by blast
  with True show ?thesis by (simp add: triton_except_def)
next
  case False
  then show ?thesis by (auto simp add: triton_except_def)
qed

text \<open>
  Claim C6, as amended. For every failure of the import and smoke-test phase of
  \<^verbatim>\<open>check_env_triton\<close> (the import of triton, the parse of its version or the custom-kernel
  test raises): when the failure is a \<^verbatim>\<open>RuntimeError\<close> whose first argument is a string that
  contains \<^verbatim>\<open>device kernel image is invalid\<close>, the reporter is called with the driver-reinstall
  message; when the failure is of another class, or a \<^verbatim>\<open>RuntimeError\<close> with no argument, or
  a \<^verbatim>\<open>RuntimeError\<close> whose first argument is a string without the signature, the reporter is
  called with the generic Triton message; in each of these cases the process exits with
  status 1. A \<^verbatim>\<open>RuntimeError\<close> whose first argument is not a string is left out.
\<close>

theorem triton_failure_remediation:
  assumes failure:
      "triton_import env = Inl e
       \<or> (\<exists>s. triton_import env = Inr s \<and> version_parse env s = Inl e)
       \<or> (\<exists>s v. triton_import env = Inr s \<and> version_parse env s = Inr v
                 \<and> triton_smoke env = Some e)"
    and first_arg:
      "exn_class e = RuntimeErrorClass \<Longrightarrow> exn_args e \<noteq> [] \<Longrightarrow> \<exists>text. exn_args e ! 0 = PStr text"
  shows "check_env_triton env device =
           after ([Log DEBUG ''Checking <Triton> environment.'' NoExcInfo, Ext TritonImport]
                  @ (case triton_import env of
                       Inl _ \<Rightarrow> []
                     | Inr s \<Rightarrow>
                         (case version_parse env s of
                            Inl _ \<Rightarrow> []
                          | Inr v \<Rightarrow>
                              (if version_gt v max_triton_version
                               then [Log WARNING ''Engine has not been tested on triton>3.0.0.''
                                       NoExcInfo]
                               else [])
                              @ [Ext TritonSmoke])))
             (handle_exception (Some e) e ''Triton''
                (PStr (if exn_class e = RuntimeErrorClass \<and> exn_args e \<noteq> []
                          \<and> (\<exists>text. exn_args e ! 0 = PStr text \<and> contains ptxas_error text)
                       then ptxas_msg else triton_msg)))
         \<and> snd (check_env_triton env device) = Exits 1"
proof -
  note ex = triton_except_run [OF first_arg]
  have run: "check_env_triton env device =
           after ([Log DEBUG ''Checking <Triton> environment.'' NoExcInfo, Ext TritonImport]
                  @ (case triton_import env of
                       Inl _ \<Rightarrow> []
                     | Inr s \<Rightarrow>
                         (case version_parse env s of
                            Inl _ \<Rightarrow> []
                          | Inr v \<Rightarrow>
                              (if version_gt v max_triton_version
                               then [Log WARNING ''Engine has not been tested on triton>3.0.0.''
                                       NoExcInfo]
                               else [])
                              @ [Ext TritonSmoke])))
             (triton_except e)"
    using failure
    by (auto simp add: check_env_triton_def after_def MAX_TRITON_VERSION_def)
  show ?thesis
    unfolding run snd_after by (simp add: ex snd_handle_exception)
qed

text \<open>
  Two failures: the custom-kernel test raises the \<^verbatim>\<open>RuntimeError\<close> of a driver mismatch, and
  triton is not installed.
\<close>

theorem triton_failure_remediation_witness:
  "check_env_triton (good_host\<lparr>triton_smoke := Some kernel_image_runtime_error\<rparr>) ''cuda'' =
     ([Log DEBUG ''Checking <Triton> environment.'' NoExcInfo, Ext TritonImport, Ext TritonSmoke,
       Log DEBUG ''Exception'' (ExcInfo (Some kernel_image_runtime_error)),
       Log ERROR ''RuntimeError: Triton Error [CUDA]: device kernel image is invalid'' NoExcInfo,
       Log ERROR (CHR 0x1B # ''[31m<Triton> test failed!'' @ [CHR 0x0A]
                  @ ''This Error might caused by mismatching between NVIDIA Driver ''
                  @ ''and nvcc compiler. '' @ [CHR 0x0A]
                  @ ''Try solution https://github.com/triton-lang/triton/issues/1955''
                  @ ''#issuecomment-1929908209 or reinstall the driver.''
                  @ CHR 0x1B # ''[0m'') NoExcInfo],
      Exits 1)
   \<and> check_env_triton (good_host\<lparr>triton_import := Inl (module_not_found ''triton'')\<rparr>) ''cuda'' =
     ([Log DEBUG ''Checking <Triton> environment.'' NoExcInfo, Ext TritonImport,
       Log DEBUG ''Exception'' (ExcInfo (Some (module_not_found ''triton''))),
       Log ERROR (''ModuleNotFoundError: No module named '' @ [CHR 0x27] @ ''triton''
                  @ [CHR 0x27]) NoExcInfo,
       Log ERROR (CHR 0x1B # ''[31m<Triton> test failed!'' @ [CHR 0x0A]
                  @ ''Please ensure that your device is functioning properly with <Triton>.''
                  @ [CHR 0x0A]
                  @ ''You can verify your environment by running ''
                  @ ''`python -m lmdeploy.pytorch.check_env.triton_custom_add`.''
                  @ CHR 0x1B # ''[0m'') NoExcInfo],
      Exits 1)"
proof -
  let ?bad_kernel = "good_host\<lparr>triton_smoke := Some kernel_image_runtime_error\<rparr>"
  let ?no_triton = "good_host\<lparr>triton_import := Inl (module_not_found ''triton'')\<rparr>"
  have f1: "triton_import ?bad_kernel = Inl kernel_image_runtime_error
       \<or> (\<exists>s. triton_import ?bad_kernel = Inr s
              \<and> version_parse ?bad_kernel s = Inl kernel_image_runtime_error)
       \<or> (\<exists>s v. triton_import ?bad_kernel = Inr s \<and> version_parse ?bad_kernel s = Inr v
                 \<and> triton_smoke ?bad_kernel = Some kernel_image_runtime_error)"
    by (simp add: good_host_def example_parse_def)
  have a1: "\<exists>first. exn_args kernel_image_runtime_error ! 0 = PStr first"
    by (simp add: kernel_image_runtime_error_def)
  have f2: "triton_import ?no_triton = Inl (module_not_found ''triton'')
       \<or> (\<exists>s. triton_import ?no_triton = Inr s
              \<and> version_parse ?no_triton s = Inl (module_not_found ''triton''))
       \<or> (\<exists>s v. triton_import ?no_triton = Inr s \<and> version_parse ?no_triton s = Inr v
                 \<and> triton_smoke ?no_triton = Some (module_not_found ''triton''))"
    by simp
  have a2: "\<exists>first. exn_args (module_not_found ''triton'') ! 0 = PStr first"
    by (simp add: module_not_found_def Let_def)
  have v: "\<not> version_gt (final_release [2, 3, 1]) max_triton_version"
    by (simp add: version_eval max_triton_version_def)
  have found: "contains ptxas_error ''Triton Error [CUDA]: device kernel image is invalid''"
    by (simp add: ptxas_error_def)
  have r1: "check_env_triton ?bad_kernel ''cuda'' =
     ([Log DEBUG ''Checking <Triton> environment.'' NoExcInfo, Ext TritonImport, Ext TritonSmoke,
       Log DEBUG ''Exception'' (ExcInfo (Some kernel_image_runtime_error)),
       Log ERROR ''RuntimeError: Triton Error [CUDA]: device kernel image is invalid'' NoExcInfo,
       Log ERROR (CHR 0x1B # ''[31m<Triton> test failed!'' @ [CHR 0x0A]
                  @ ''This Error might caused by mismatching between NVIDIA Driver ''
                  @ ''and nvcc compiler. '' @ [CHR 0x0A]
                  @ ''Try solution https://github.com/triton-lang/triton/issues/1955''
                  @ ''#issuecomment-1929908209 or reinstall the driver.''
                  @ CHR 0x1B # ''[0m'') NoExcInfo],
      Exits 1)"
    using triton_failure_remediation [OF f1 a1, of "''cuda''"] v found
    by (simp add: good_host_def example_parse_def kernel_image_runtime_error_def after_def
        handle_exception_def py_str_def ptxas_msg_def Let_def)
  have r2: "check_env_triton ?no_triton ''cuda'' =
     ([Log DEBUG ''Checking <Triton> environment.'' NoExcInfo, Ext TritonImport,
       Log DEBUG ''Exception'' (ExcInfo (Some (module_not_found ''triton''))),
       Log ERROR (''ModuleNotFoundError: No module named '' @ [CHR 0x27] @ ''triton''
                  @ [CHR 0x27]) NoExcInfo,
       Log ERROR (CHR 0x1B # ''[31m<Triton> test failed!'' @ [CHR 0x0A]
                  @ ''Please ensure that your device is functioning properly with <Triton>.''
                  @ [CHR 0x0A]
                  @ ''You can verify your environment by running ''
                  @ ''`python -m lmdeploy.pytorch.check_env.triton_custom_add`.''
                  @ CHR 0x1B # ''[0m'') NoExcInfo],
      Exits 1)"
    using triton_failure_remediation [OF f2 a2, of "''cuda''"]
    by (simp add: module_not_found_def after_def handle_exception_def py_str_def
        triton_msg_def Let_def)
  from r1 r2 show ?thesis by blast
qed

text \<open>
  Claim C6 as stated fails: the targeted message is bound to the class \<^verbatim>\<open>RuntimeError\<close> by
  the \<^verbatim>\<open>except RuntimeError\<close> clause of line 87. A custom-kernel test that raises an exception
  of another class whose text contains \<^verbatim>\<open>device kernel image is invalid\<close> is reported with
  the generic message, which is not the targeted one.
\<close>

theorem triton_failure_signature_counterexample:
  "triton_smoke (good_host\<lparr>triton_smoke := Some kernel_image_other_error\<rparr>)
     = Some kernel_image_other_error
   \<and> contains ptxas_error (exn_str kernel_image_other_error)
   \<and> check_env_triton (good_host\<lparr>triton_smoke := Some kernel_image_other_error\<rparr>) ''cuda'' =
       after [Log DEBUG ''Checking <Triton> environment.'' NoExcInfo, Ext TritonImport,
              Ext TritonSmoke]
         (handle_exception (Some kernel_image_other_error) kernel_image_other_error ''Triton''
            (PStr triton_msg))
   \<and> triton_msg \<noteq> ptxas_msg"
proof -
  have a: "triton_smoke (good_host\<lparr>triton_smoke := Some kernel_image_other_error\<rparr>)
     = Some kernel_image_other_error" by simp
  have b: "contains ptxas_error (exn_str kernel_image_other_error)"
    by (simp add: ptxas_error_def kernel_image_other_error_def)
  have v: "\<not> version_gt (final_release [2, 3, 1]) max_triton_version"
    by (simp add: version_eval max_triton_version_def)
  have c: "check_env_triton (good_host\<lparr>triton_smoke := Some kernel_image_other_error\<rparr>) ''cuda'' =
       after [Log DEBUG ''Checking <Triton> environment.'' NoExcInfo, Ext TritonImport,
              Ext TritonSmoke]
         (handle_exception (Some kernel_image_other_error) kernel_image_other_error ''Triton''
            (PStr triton_msg))"
    using v
    by (simp add: check_env_triton_def good_host_def example_parse_def after_def
        triton_except_def kernel_image_other_error_def)
  have d: "triton_msg \<noteq> ptxas_msg"
    by (simp add: triton_msg_def ptxas_msg_def)
  from a b c d show ?thesis by blast
qed

section \<open>Properties of the model-library version checks\<close>

text \<open>
  Claim C2. In \<^verbatim>\<open>__check_transformers_version\<close>, for every installed transformers version
  that is imported and parses: a warning is logged if and only if the version is below
  4.33.0 or above 4.44.1, in the order of \<^verbatim>\<open>packaging\<close>; the warning names both bounds and
  the installed version string; a version equal to either bound gives no warning, and the
  check then logs its debug progress line only. In both cases the check returns the
  parsed version. The two bounds print as 4.33.0 and 4.44.1.
\<close>

theorem transformers_version_range_warning:
  assumes "transformers_import env = Inr s"
    and "version_parse env s = Inr v"
  shows "inner_check_transformers_version env =
           after ([Log DEBUG ''Checking <transformers> version.'' NoExcInfo,
                   Ext TransformersImport]
                  @ (if version_lt v min_version \<or> version_gt v max_version
                     then [Log WARNING (''LMDeploy requires transformers version: ''
                                        @ ''[4.33.0 ~ 4.44.1], but found version: '' @ s)
                             NoExcInfo]
                     else []))
             (returns v)
         \<and> ((\<exists>ev \<in> set (fst (inner_check_transformers_version env)).
                 log_level ev = Some WARNING)
              \<longleftrightarrow> version_lt v min_version \<or> version_gt v max_version)
         \<and> (version_eq v min_version \<or> version_eq v max_version \<longrightarrow>
               inner_check_transformers_version env =
                 ([Log DEBUG ''Checking <transformers> version.'' NoExcInfo,
                   Ext TransformersImport], Returns v))
         \<and> version_str min_version = ''4.33.0'' \<and> version_str max_version = ''4.44.1''"
proof -
  have run: "inner_check_transformers_version env =
           after ([Log DEBUG ''Checking <transformers> version.'' NoExcInfo,
                   Ext TransformersImport]
                  @ (if version_lt v min_version \<or> version_gt v max_version
                     then [Log WARNING (''LMDeploy requires transformers version: ''
                                        @ ''[4.33.0 ~ 4.44.1], but found version: '' @ s)
                             NoExcInfo]
                     else []))
             (returns v)"
    using assms
    by (simp add: inner_check_transformers_version_def after_def returns_def
        MIN_TRANSFORMERS_VERSION_def MAX_TRANSFORMERS_VERSION_def)
  have warns: "(\<exists>ev \<in> set (fst (inner_check_transformers_version env)).
                 log_level ev = Some WARNING)
              \<longleftrightarrow> version_lt v min_version \<or> version_gt v max_version"
    unfolding run fst_after by (simp add: returns_def log_level_def)
  have bounds: "\<not> version_lt min_version min_version" "\<not> version_gt min_version max_version"
    "\<not> version_lt max_version min_version" "\<not> version_gt max_version max_version"
    by (simp_all add: version_eval min_version_def max_version_def)
  have eq_lt: "\<And>a b c. version_eq a b \<Longrightarrow> version_lt a c = version_lt b c"
    and eq_gt: "\<And>a b c. version_eq a b \<Longrightarrow> version_gt a c = version_gt b c"
    by (simp_all add: version_lt_def version_gt_def version_eq_compare)
  have silent: "version_eq v min_version \<or> version_eq v max_version \<longrightarrow>
               inner_check_transformers_version env =
                 ([Log DEBUG ''Checking <transformers> version.'' NoExcInfo,
                   Ext TransformersImport], Returns v)"
    unfolding run using bounds eq_lt eq_gt by (auto simp add: after_def returns_def)
  have strs: "version_str min_version = ''4.33.0''" "version_str max_version = ''4.44.1''"
    by (simp_all add: min_version_def max_version_def version_str_def final_release_def
        string_of_nat.simps)
  from run warns silent strs show ?thesis by blast
qed

text \<open>
  Five installed versions: 4.44.1 and 4.33.0, the two bounds, give no warning; 4.45.0 and
  2.3.1 give one, and so does 4.33.0.dev0, which is below 4.33.0.
\<close>

theorem transformers_version_range_warning_witness:
  "inner_check_transformers_version good_host =
     ([Log DEBUG ''Checking <transformers> version.'' NoExcInfo, Ext TransformersImport],
      Returns (final_release [4, 44, 1]))
   \<and> inner_check_transformers_version (good_host\<lparr>transformers_import := Inr ''4.33.0''\<rparr>) =
     ([Log DEBUG ''Checking <transformers> version.'' NoExcInfo, Ext TransformersImport],
      Returns (final_release [4, 33, 0]))
   \<and> inner_check_transformers_version (good_host\<lparr>transformers_import := Inr ''4.45.0''\<rparr>) =
     ([Log DEBUG ''Checking <transformers> version.'' NoExcInfo, Ext TransformersImport,
       Log WARNING (''LMDeploy requires transformers version: ''
                    @ ''[4.33.0 ~ 4.44.1], but found version: 4.45.0'') NoExcInfo],
      Returns (final_release [4, 45, 0]))
   \<and> inner_check_transformers_version (good_host\<lparr>transformers_import := Inr ''2.3.1''\<rparr>) =
     ([Log DEBUG ''Checking <transformers> version.'' NoExcInfo, Ext TransformersImport,
       Log WARNING (''LMDeploy requires transformers version: ''
                    @ ''[4.33.0 ~ 4.44.1], but found version: 2.3.1'') NoExcInfo],
      Returns (final_release [2, 3, 1]))
   \<and> inner_check_transformers_version (good_host\<lparr>transformers_import := Inr ''4.33.0.dev0''\<rparr>) =
     ([Log DEBUG ''Checking <transformers> version.'' NoExcInfo, Ext TransformersImport,
       Log WARNING (''LMDeploy requires transformers version: ''
                    @ ''[4.33.0 ~ 4.44.1], but found version: 4.33.0.dev0'') NoExcInfo],
      Returns ((final_release [4, 33, 0])\<lparr>ver_dev := Some 0\<rparr>))"
proof -
  let ?dev = "good_host\<lparr>transformers_import := Inr ''4.33.0.dev0''\<rparr>"
  have i5: "transformers_import ?dev = Inr ''4.33.0.dev0''"
    by (simp add: good_host_def)
  have p5: "version_parse ?dev ''4.33.0.dev0''
              = Inr ((final_release [4, 33, 0])\<lparr>ver_dev := Some 0\<rparr>)"
    by (simp add: good_host_def example_parse_def)
  have v5: "version_lt ((final_release [4, 33, 0])\<lparr>ver_dev := Some 0\<rparr>) min_version"
    by (simp add: version_eval min_version_def)
  have r5: "inner_check_transformers_version ?dev =
     ([Log DEBUG ''Checking <transformers> version.'' NoExcInfo, Ext TransformersImport,
       Log WARNING (''LMDeploy requires transformers version: ''
                    @ ''[4.33.0 ~ 4.44.1], but found version: 4.33.0.dev0'') NoExcInfo],
      Returns ((final_release [4, 33, 0])\<lparr>ver_dev := Some 0\<rparr>))"
    using transformers_version_range_warning [OF i5 p5] v5
    by (simp add: after_def returns_def)
  let ?at_min = "good_host\<lparr>transformers_import := Inr ''4.33.0''\<rparr>"
  let ?above = "good_host\<lparr>transformers_import := Inr ''4.45.0''\<rparr>"
  let ?below = "good_host\<lparr>transformers_import := Inr ''2.3.1''\<rparr>"
  have i: "transformers_import good_host = Inr ''4.44.1''"
    "transformers_import ?at_min = Inr ''4.33.0''"
    "transformers_import ?above = Inr ''4.45.0''"
    "transformers_import ?below = Inr ''2.3.1''"
    by (simp_all add: good_host_def)
  have p: "version_parse good_host ''4.44.1'' = Inr (final_release [4, 44, 1])"
    "version_parse ?at_min ''4.33.0'' = Inr (final_release [4, 33, 0])"
    "version_parse ?above ''4.45.0'' = Inr (final_release [4, 45, 0])"
    "version_parse ?below ''2.3.1'' = Inr (final_release [2, 3, 1])"
    by (simp_all add: good_host_def example_parse_def)
  have v: "\<not> version_lt (final_release [4, 44, 1]) min_version"
    "\<not> version_gt (final_release [4, 44, 1]) max_version"
    "\<not> version_lt (final_release [4, 33, 0]) min_version"
    "\<not> version_gt (final_release [4, 33, 0]) max_version"
    "version_gt (final_release [4, 45, 0]) max_version"
    "version_lt (final_release [2, 3, 1]) min_version"
    by (simp_all add: version_eval min_version_def max_version_def)
  have r1: "inner_check_transformers_version good_host =
     ([Log DEBUG ''Checking <transformers> version.'' NoExcInfo, Ext TransformersImport],
      Returns (final_release [4, 44, 1]))"
    using transformers_version_range_warning [OF i(1) p(1)] v
    by (simp add: after_def returns_def)
  have r2: "inner_check_transformers_version ?at_min =
     ([Log DEBUG ''Checking <transformers> version.'' NoExcInfo, Ext TransformersImport],
      Returns (final_release [4, 33, 0]))"
    using transformers_version_range_warning [OF i(2) p(2)] v
    by (simp add: after_def returns_def)
  have r3: "inner_check_transformers_version ?above =
     ([Log DEBUG ''Checking <transformers> version.'' NoExcInfo, Ext TransformersImport,
       Log WARNING (''LMDeploy requires transformers version: ''
                    @ ''[4.33.0 ~ 4.44.1], but found version: 4.45.0'') NoExcInfo],
      Returns (final_release [4, 45, 0]))"
    using transformers_version_range_warning [OF i(3) p(3)] v
    by (simp add: after_def returns_def)
  have r4: "inner_check_transformers_version ?below =
     ([Log DEBUG ''Checking <transformers> version.'' NoExcInfo, Ext TransformersImport,
       Log WARNING (''LMDeploy requires transformers version: ''
                    @ ''[4.33.0 ~ 4.44.1], but found version: 2.3.1'') NoExcInfo],
      Returns (final_release [2, 3, 1]))"
    using transformers_version_range_warning [OF i(4) p(4)] v
    by (simp add: after_def returns_def)
  from r1 r2 r3 r4 r5 show ?thesis by blast
qed

text \<open>
  Claim C5. On every run of \<^verbatim>\<open>check_model\<close> where the installed transformers version parses,
  the config loads and declares a \<^verbatim>\<open>transformers_version\<close> that parses and is greater than
  the installed one, the run ends in the per-model version check: the reporter logs the
  \<^verbatim>\<open>AssertionError\<close> and a message naming the required and the installed version, and the
  process exits with status 1. When the config declares no version, or a version that the
  installed one is greater than or equal to, the per-model check logs its debug progress
  line only and returns. The two cases are complementary.
\<close>

theorem model_transformers_version_gate:
  "(transformers_import env = Inr s \<longrightarrow> version_parse env s = Inr installed \<longrightarrow>
    config_load env model_path trust_remote_code = Inr config \<longrightarrow>
    transformers_version config = Some declared \<longrightarrow>
    version_parse env declared = Inr required \<longrightarrow>
    version_gt required installed \<longrightarrow>
      check_model env model_path trust_remote_code dtype_arg device_type =
        ([Log INFO ''Checking model.'' NoExcInfo,
          Log DEBUG ''Checking <transformers> version.'' NoExcInfo, Ext TransformersImport]
         @ (if version_lt installed min_version \<or> version_gt installed max_version
            then [Log WARNING (''LMDeploy requires transformers version: ''
                               @ ''[4.33.0 ~ 4.44.1], but found version: '' @ s) NoExcInfo]
            else [])
         @ [Log DEBUG ''Checking <Model> AutoConfig.from_pretrained.'' NoExcInfo,
            Ext (ConfigLoad model_path trust_remote_code),
            Log DEBUG ''Checking <Model> required transformers version.'' NoExcInfo,
            Log DEBUG ''Exception'' (ExcInfo (Some (assertion_error ''Version mismatch.''))),
            Log ERROR ''AssertionError: Version mismatch.'' NoExcInfo,
            Log ERROR (CHR 0x1B # ''[31m<transformers> test failed!'' @ [CHR 0x0A]
                       @ ''model `'' @ model_path @ ''` requires transformers version ''
                       @ version_str required @ '' but transformers ''
                       @ version_str installed @ '' is installed.''
                       @ CHR 0x1B # ''[0m'') NoExcInfo],
         Exits 1))
   \<and> (transformers_version config = None \<longrightarrow>
        inner_check_model_transformers_version env model_path config installed =
          ([Log DEBUG ''Checking <Model> required transformers version.'' NoExcInfo],
           Returns ()))
   \<and> (transformers_version config = Some declared \<longrightarrow>
        version_parse env declared = Inr required \<longrightarrow>
        version_ge installed required \<longrightarrow>
        inner_check_model_transformers_version env model_path config installed =
          ([Log DEBUG ''Checking <Model> required transformers version.'' NoExcInfo],
           Returns ()))
   \<and> (version_ge installed required \<longleftrightarrow> \<not> version_gt required installed)"
proof -
  have fatal: "check_model env model_path trust_remote_code dtype_arg device_type =
        ([Log INFO ''Checking model.'' NoExcInfo,
          Log DEBUG ''Checking <transformers> version.'' NoExcInfo, Ext TransformersImport]
         @ (if version_lt installed min_version \<or> version_gt installed max_version
            then [Log WARNING (''LMDeploy requires transformers version: ''
                               @ ''[4.33.0 ~ 4.44.1], but found version: '' @ s) NoExcInfo]
            else [])
         @ [Log DEBUG ''Checking <Model> AutoConfig.from_pretrained.'' NoExcInfo,
            Ext (ConfigLoad model_path trust_remote_code),
            Log DEBUG ''Checking <Model> required transformers version.'' NoExcInfo,
            Log DEBUG ''Exception'' (ExcInfo (Some (assertion_error ''Version mismatch.''))),
            Log ERROR ''AssertionError: Version mismatch.'' NoExcInfo,
            Log ERROR (CHR 0x1B # ''[31m<transformers> test failed!'' @ [CHR 0x0A]
                       @ ''model `'' @ model_path @ ''` requires transformers version ''
                       @ version_str required @ '' but transformers ''
                       @ version_str installed @ '' is installed.''
                       @ CHR 0x1B # ''[0m'') NoExcInfo],
         Exits 1)"
    if h: "transformers_import env = Inr s" "version_parse env s = Inr installed"
      "config_load env model_path trust_remote_code = Inr config"
      "transformers_version config = Some declared"
      "version_parse env declared = Inr required"
      "version_gt required installed"
  proof -
    have ge: "\<not> version_ge installed required"
      using h(6) by (simp add: version_ge_not_gt)
    have step1: "inner_check_transformers_version env =
        ([Log DEBUG ''Checking <transformers> version.'' NoExcInfo, Ext TransformersImport]
         @ (if version_lt installed min_version \<or> version_gt installed max_version
            then [Log WARNING (''LMDeploy requires transformers version: ''
                               @ ''[4.33.0 ~ 4.44.1], but found version: '' @ s) NoExcInfo]
            else []), Returns installed)"
      using h(1,2)
      by (simp add: inner_check_transformers_version_def after_def returns_def
          MIN_TRANSFORMERS_VERSION_def MAX_TRANSFORMERS_VERSION_def)
    have step2: "inner_check_config env model_path trust_remote_code installed =
        ([Log DEBUG ''Checking <Model> AutoConfig.from_pretrained.'' NoExcInfo,
          Ext (ConfigLoad model_path trust_remote_code)], Returns config)"
      using h(3) by (simp add: inner_check_config_def after_def returns_def)
    have step3: "inner_check_model_transformers_version env model_path config installed =
        ([Log DEBUG ''Checking <Model> required transformers version.'' NoExcInfo,
          Log DEBUG ''Exception'' (ExcInfo (Some (assertion_error ''Version mismatch.''))),
          Log ERROR ''AssertionError: Version mismatch.'' NoExcInfo,
          Log ERROR (CHR 0x1B # ''[31m<transformers> test failed!'' @ [CHR 0x0A]
                     @ ''model `'' @ model_path @ ''` requires transformers version ''
                     @ version_str required @ '' but transformers ''
                     @ version_str installed @ '' is installed.''
                     @ CHR 0x1B # ''[0m'') NoExcInfo],
         Exits 1)"
      using h(4,5) ge
      by (simp add: inner_check_model_transformers_version_def after_def Let_def
          handle_exception_def assertion_error_def version_mismatch_message_def py_str_def)
    show ?thesis
      unfolding check_model_def check_transformers_version_def
      by (simp add: step1 step2 step3 then_run_def after_def)
  qed
  have none: "inner_check_model_transformers_version env model_path config installed =
          ([Log DEBUG ''Checking <Model> required transformers version.'' NoExcInfo],
           Returns ())" if "transformers_version config = None"
    using that by (simp add: inner_check_model_transformers_version_def after_def returns_def)
  have enough: "inner_check_model_transformers_version env model_path config installed =
          ([Log DEBUG ''Checking <Model> required transformers version.'' NoExcInfo],
           Returns ())"
    if "transformers_version config = Some declared" "version_parse env declared = Inr required"
      "version_ge installed required"
    using that by (simp add: inner_check_model_transformers_version_def after_def returns_def)
  have dich: "version_ge installed required \<longleftrightarrow> \<not> version_gt required installed"
    by (simp add: version_ge_not_gt)
  from fatal none enough dich show ?thesis by blast
qed

text \<open>
  The config declares 4.50.0 and 4.44.1 is installed: exit status 1, with both versions in
  the message. A config that declares nothing and a config that declares 4.44.1 pass. The
  config declares 4.45.0 and the development release 4.45.0.dev0 is installed, which is
  below it: exit status 1, and the message prints the installed version whole.
\<close>

theorem model_transformers_version_gate_witness:
  "check_model (good_host\<lparr>config_load := (\<lambda>model_path trust_remote_code. Inr newer_config)\<rparr>)
       ''/path/to/model'' True ''auto'' ''cuda'' =
     ([Log INFO ''Checking model.'' NoExcInfo,
       Log DEBUG ''Checking <transformers> version.'' NoExcInfo, Ext TransformersImport,
       Log DEBUG ''Checking <Model> AutoConfig.from_pretrained.'' NoExcInfo,
       Ext (ConfigLoad ''/path/to/model'' True),
       Log DEBUG ''Checking <Model> required transformers version.'' NoExcInfo,
       Log DEBUG ''Exception'' (ExcInfo (Some (assertion_error ''Version mismatch.''))),
       Log ERROR ''AssertionError: Version mismatch.'' NoExcInfo,
       Log ERROR (CHR 0x1B # ''[31m<transformers> test failed!'' @ [CHR 0x0A]
                  @ ''model `/path/to/model` requires transformers version 4.50.0 ''
                  @ ''but transformers 4.44.1 is installed.''
                  @ CHR 0x1B # ''[0m'') NoExcInfo],
      Exits 1)
   \<and> inner_check_model_transformers_version good_host ''/path/to/model'' plain_config
       (final_release [4, 44, 1]) =
     ([Log DEBUG ''Checking <Model> required transformers version.'' NoExcInfo], Returns ())
   \<and> inner_check_model_transformers_version good_host ''/path/to/model'' awq_config
       (final_release [4, 44, 1]) =
     ([Log DEBUG ''Checking <Model> required transformers version.'' NoExcInfo], Returns ())
   \<and> check_model (good_host\<lparr>transformers_import := Inr ''4.45.0.dev0'',
                             config_load := (\<lambda>model_path trust_remote_code. Inr release_config)\<rparr>)
       ''/path/to/model'' True ''auto'' ''cuda'' =
     ([Log INFO ''Checking model.'' NoExcInfo,
       Log DEBUG ''Checking <transformers> version.'' NoExcInfo, Ext TransformersImport,
       Log WARNING (''LMDeploy requires transformers version: ''
                    @ ''[4.33.0 ~ 4.44.1], but found version: 4.45.0.dev0'') NoExcInfo,
       Log DEBUG ''Checking <Model> AutoConfig.from_pretrained.'' NoExcInfo,
       Ext (ConfigLoad ''/path/to/model'' True),
       Log DEBUG ''Checking <Model> required transformers version.'' NoExcInfo,
       Log DEBUG ''Exception'' (ExcInfo (Some (assertion_error ''Version mismatch.''))),
       Log ERROR ''AssertionError: Version mismatch.'' NoExcInfo,
       Log ERROR (CHR 0x1B # ''[31m<transformers> test failed!'' @ [CHR 0x0A]
                  @ ''model `/path/to/model` requires transformers version 4.45.0 ''
                  @ ''but transformers 4.45.0.dev0 is installed.''
                  @ CHR 0x1B # ''[0m'') NoExcInfo],
      Exits 1)"
proof -
  let ?dev = "good_host\<lparr>transformers_import := Inr ''4.45.0.dev0'',
                       config_load := (\<lambda>model_path trust_remote_code. Inr release_config)\<rparr>"
  let ?dev_version = "(final_release [4, 45, 0])\<lparr>ver_dev := Some 0\<rparr>"
  have i4: "transformers_import ?dev = Inr ''4.45.0.dev0''"
    by (simp add: good_host_def)
  have p4: "version_parse ?dev ''4.45.0.dev0'' = Inr ?dev_version"
    "version_parse ?dev ''4.45.0'' = Inr (final_release [4, 45, 0])"
    by (simp_all add: good_host_def example_parse_def)
  have c4: "config_load ?dev ''/path/to/model'' True = Inr release_config"
    by (simp add: good_host_def)
  have d4: "transformers_version release_config = Some ''4.45.0''"
    by (simp add: release_config_def)
  have v4: "version_gt (final_release [4, 45, 0]) ?dev_version"
    "version_gt ?dev_version max_version"
    by (simp_all add: version_eval max_version_def)
  have r4: "check_model ?dev ''/path/to/model'' True ''auto'' ''cuda'' =
     ([Log INFO ''Checking model.'' NoExcInfo,
       Log DEBUG ''Checking <transformers> version.'' NoExcInfo, Ext TransformersImport,
       Log WARNING (''LMDeploy requires transformers version: ''
                    @ ''[4.33.0 ~ 4.44.1], but found version: 4.45.0.dev0'') NoExcInfo,
       Log DEBUG ''Checking <Model> AutoConfig.from_pretrained.'' NoExcInfo,
       Ext (ConfigLoad ''/path/to/model'' True),
       Log DEBUG ''Checking <Model> required transformers version.'' NoExcInfo,
       Log DEBUG ''Exception'' (ExcInfo (Some (assertion_error ''Version mismatch.''))),
       Log ERROR ''AssertionError: Version mismatch.'' NoExcInfo,
       Log ERROR (CHR 0x1B # ''[31m<transformers> test failed!'' @ [CHR 0x0A]
                  @ ''model `/path/to/model` requires transformers version 4.45.0 ''
                  @ ''but transformers 4.45.0.dev0 is installed.''
                  @ CHR 0x1B # ''[0m'') NoExcInfo],
      Exits 1)"
    using model_transformers_version_gate [of ?dev "''4.45.0.dev0''" ?dev_version
        "''/path/to/model''" True release_config "''4.45.0''" "final_release [4, 45, 0]"
        "''auto''" "''cuda''"]
      i4 p4 c4 d4 v4
    by (simp add: version_str_def final_release_def string_of_nat.simps)
  let ?newer = "good_host\<lparr>config_load := (\<lambda>model_path trust_remote_code. Inr newer_config)\<rparr>"
  have i: "transformers_import ?newer = Inr ''4.44.1''"
    by (simp add: good_host_def)
  have p: "version_parse ?newer ''4.44.1'' = Inr (final_release [4, 44, 1])"
    "version_parse ?newer ''4.50.0'' = Inr (final_release [4, 50, 0])"
    "version_parse good_host ''4.44.1'' = Inr (final_release [4, 44, 1])"
    by (simp_all add: good_host_def example_parse_def)
  have c: "config_load ?newer ''/path/to/model'' True = Inr newer_config"
    by (simp add: good_host_def)
  have d: "transformers_version newer_config = Some ''4.50.0''"
    "transformers_version plain_config = None"
    "transformers_version awq_config = Some ''4.44.1''"
    by (simp_all add: newer_config_def plain_config_def awq_config_def)
  have v: "version_gt (final_release [4, 50, 0]) (final_release [4, 44, 1])"
    "version_ge (final_release [4, 44, 1]) (final_release [4, 44, 1])"
    "\<not> version_lt (final_release [4, 44, 1]) min_version"
    "\<not> version_gt (final_release [4, 44, 1]) max_version"
    by (simp_all add: version_eval min_version_def
        max_version_def)
  note gate = model_transformers_version_gate
  have r1: "check_model ?newer ''/path/to/model'' True ''auto'' ''cuda'' =
     ([Log INFO ''Checking model.'' NoExcInfo,
       Log DEBUG ''Checking <transformers> version.'' NoExcInfo, Ext TransformersImport,
       Log DEBUG ''Checking <Model> AutoConfig.from_pretrained.'' NoExcInfo,
       Ext (ConfigLoad ''/path/to/model'' True),
       Log DEBUG ''Checking <Model> required transformers version.'' NoExcInfo,
       Log DEBUG ''Exception'' (ExcInfo (Some (assertion_error ''Version mismatch.''))),
       Log ERROR ''AssertionError: Version mismatch.'' NoExcInfo,
       Log ERROR (CHR 0x1B # ''[31m<transformers> test failed!'' @ [CHR 0x0A]
                  @ ''model `/path/to/model` requires transformers version 4.50.0 ''
                  @ ''but transformers 4.44.1 is installed.''
                  @ CHR 0x1B # ''[0m'') NoExcInfo],
      Exits 1)"
    using gate [of ?newer "''4.44.1''" "final_release [4, 44, 1]" "''/path/to/model''" True
        newer_config "''4.50.0''" "final_release [4, 50, 0]" "''auto''" "''cuda''"]
      i p c d v
    by (simp add: version_str_def final_release_def string_of_nat.simps)
  have r2: "inner_check_model_transformers_version good_host ''/path/to/model'' plain_config
       (final_release [4, 44, 1]) =
     ([Log DEBUG ''Checking <Model> required transformers version.'' NoExcInfo], Returns ())"
    using gate [of good_host _ "final_release [4, 44, 1]" "''/path/to/model''" _ plain_config] d
    by simp
  have r3: "inner_check_model_transformers_version good_host ''/path/to/model'' awq_config
       (final_release [4, 44, 1]) =
     ([Log DEBUG ''Checking <Model> required transformers version.'' NoExcInfo], Returns ())"
    using gate [of good_host _ "final_release [4, 44, 1]" "''/path/to/model''" _ awq_config
        "''4.44.1''" "final_release [4, 44, 1]"] d p v
    by simp
  from r1 r2 r3 r4 show ?thesis by blast
qed

section \<open>Properties of the quantization probe\<close>

text \<open>
  Claim C9. \<^verbatim>\<open>check_awq\<close> makes no third-party call and no logger call, and returns, unless
  the device is \<^verbatim>\<open>'cuda'\<close> and the config has a quantization section whose \<^verbatim>\<open>quant_method\<close> is
  \<^verbatim>\<open>'awq'\<close>; a config without the section does not declare it. When the probe applies: a
  failed import of \<^verbatim>\<open>awq\<close> goes to the reporter, with the default message, and the process
  exits with status 1; a failed import of \<^verbatim>\<open>awq_ext\<close> logs a debug record and a warning
  with the link to the kernels, and the probe returns; when both imports succeed the probe
  returns without a logger call.
\<close>

theorem check_awq_scope_and_severity:
  "(\<not> (device_type = ''cuda''
         \<and> (\<exists>d. quantization_config hf_config = Some d
                  \<and> map_of d ''quant_method'' = Some (PStr ''awq''))) \<longrightarrow>
      check_awq env hf_config device_type = ([], Returns ()))
   \<and> (quantization_config hf_config = Some d \<longrightarrow>
       map_of d ''quant_method'' = Some (PStr ''awq'') \<longrightarrow>
         (awq_import env = Some e \<longrightarrow>
            check_awq env hf_config ''cuda'' =
              ([Ext AwqImport,
                Log DEBUG ''Exception'' (ExcInfo (Some e)),
                Log ERROR (exn_name e @ '': '' @ exn_str e) NoExcInfo,
                Log ERROR (CHR 0x1B # ''[31m<autoawq> test failed!'' @ [CHR 0x0A]
                           @ ''Please ensure it has been installed correctly.''
                           @ CHR 0x1B # ''[0m'') NoExcInfo],
               Exits 1))
         \<and> (awq_import env = None \<longrightarrow> awq_ext_import env = Some e \<longrightarrow>
              check_awq env hf_config ''cuda'' =
                ([Ext AwqImport, Ext AwqExtImport,
                  Log DEBUG ''Exception:'' (ExcInfo (Some e)),
                  Log WARNING (''Failed to import `awq_ext`. Try reinstall it from source: ''
                               @ ''https://github.com/casper-hansen/AutoAWQ_kernels'')
                    NoExcInfo],
                 Returns ()))
         \<and> (awq_import env = None \<longrightarrow> awq_ext_import env = None \<longrightarrow>
              check_awq env hf_config ''cuda'' =
                ([Ext AwqImport, Ext AwqExtImport], Returns ())))"
proof -
  have skip: "check_awq env hf_config device_type = ([], Returns ())"
    if "\<not> (device_type = ''cuda''
         \<and> (\<exists>d. quantization_config hf_config = Some d
                  \<and> map_of d ''quant_method'' = Some (PStr ''awq'')))"
    using that
    by (auto simp add: check_awq_def returns_def Let_def split: option.splits)
  have base: "check_awq env hf_config ''cuda'' =
              ([Ext AwqImport,
                Log DEBUG ''Exception'' (ExcInfo (Some e)),
                Log ERROR (exn_name e @ '': '' @ exn_str e) NoExcInfo,
                Log ERROR (CHR 0x1B # ''[31m<autoawq> test failed!'' @ [CHR 0x0A]
                           @ ''Please ensure it has been installed correctly.''
                           @ CHR 0x1B # ''[0m'') NoExcInfo],
               Exits 1)"
    if "quantization_config hf_config = Some d" "map_of d ''quant_method'' = Some (PStr ''awq'')"
      "awq_import env = Some e"
    using that
    by (simp add: check_awq_def after_def handle_exception_def py_str_def Let_def)
  have ext: "check_awq env hf_config ''cuda'' =
                ([Ext AwqImport, Ext AwqExtImport,
                  Log DEBUG ''Exception:'' (ExcInfo (Some e)),
                  Log WARNING (''Failed to import `awq_ext`. Try reinstall it from source: ''
                               @ ''https://github.com/casper-hansen/AutoAWQ_kernels'')
                    NoExcInfo],
                 Returns ())"
    if "quantization_config hf_config = Some d" "map_of d ''quant_method'' = Some (PStr ''awq'')"
      "awq_import env = None" "awq_ext_import env = Some e"
    using that
    by (simp add: check_awq_def after_def returns_def awq_ext_warning_def Let_def)
  have both: "check_awq env hf_config ''cuda'' = ([Ext AwqImport, Ext AwqExtImport], Returns ())"
    if "quantization_config hf_config = Some d" "map_of d ''quant_method'' = Some (PStr ''awq'')"
      "awq_import env = None" "awq_ext_import env = None"
    using that
    by (simp add: check_awq_def after_def returns_def Let_def)
  from skip base ext both show ?thesis by blast
qed

text \<open>
  Five runs: no quantization section; a device that is not \<^verbatim>\<open>'cuda'\<close>; \<^verbatim>\<open>awq\<close> missing;
  \<^verbatim>\<open>awq_ext\<close> missing; both installed. In the first two \<^verbatim>\<open>awq\<close> is missing as well, and
  the probe does not find out.
\<close>

theorem check_awq_scope_and_severity_witness:
  "check_awq (good_host\<lparr>awq_import := Some (module_not_found ''awq'')\<rparr>) plain_config ''cuda''
     = ([], Returns ())
   \<and> check_awq (good_host\<lparr>awq_import := Some (module_not_found ''awq'')\<rparr>) awq_config ''ascend''
     = ([], Returns ())
   \<and> check_awq (good_host\<lparr>awq_import := Some (module_not_found ''awq'')\<rparr>) awq_config ''cuda''
     = ([Ext AwqImport,
         Log DEBUG ''Exception'' (ExcInfo (Some (module_not_found ''awq''))),
         Log ERROR (''ModuleNotFoundError: No module named '' @ [CHR 0x27] @ ''awq''
                    @ [CHR 0x27]) NoExcInfo,
         Log ERROR (CHR 0x1B # ''[31m<autoawq> test failed!'' @ [CHR 0x0A]
                    @ ''Please ensure it has been installed correctly.''
                    @ CHR 0x1B # ''[0m'') NoExcInfo],
        Exits 1)
   \<and> check_awq (good_host\<lparr>awq_ext_import := Some (module_not_found ''awq_ext'')\<rparr>) awq_config
       ''cuda''
     = ([Ext AwqImport, Ext AwqExtImport,
         Log DEBUG ''Exception:'' (ExcInfo (Some (module_not_found ''awq_ext''))),
         Log WARNING (''Failed to import `awq_ext`. Try reinstall it from source: ''
                      @ ''https://github.com/casper-hansen/AutoAWQ_kernels'') NoExcInfo],
        Returns ())
   \<and> check_awq good_host awq_config ''cuda'' = ([Ext AwqImport, Ext AwqExtImport], Returns ())"
proof -
  let ?no_awq = "good_host\<lparr>awq_import := Some (module_not_found ''awq'')\<rparr>"
  let ?no_ext = "good_host\<lparr>awq_ext_import := Some (module_not_found ''awq_ext'')\<rparr>"
  let ?dict = "[(''bits'', PInt 4), (''quant_method'', PStr ''awq'')]"
  have q: "quantization_config plain_config = None"
    "quantization_config awq_config = Some ?dict"
    "map_of ?dict ''quant_method'' = Some (PStr ''awq'')"
    by (simp_all add: plain_config_def awq_config_def)
  have i: "awq_import ?no_awq = Some (module_not_found ''awq'')"
    "awq_import ?no_ext = None" "awq_ext_import ?no_ext = Some (module_not_found ''awq_ext'')"
    "awq_import good_host = None" "awq_ext_import good_host = None"
    by (simp_all add: good_host_def)
  have r1: "check_awq ?no_awq plain_config ''cuda'' = ([], Returns ())"
    using check_awq_scope_and_severity [of "''cuda''" plain_config ?no_awq] q by simp
  have r2: "check_awq ?no_awq awq_config ''ascend'' = ([], Returns ())"
    using check_awq_scope_and_severity [of "''ascend''" awq_config ?no_awq] by simp
  have r3: "check_awq ?no_awq awq_config ''cuda''
     = ([Ext AwqImport,
         Log DEBUG ''Exception'' (ExcInfo (Some (module_not_found ''awq''))),
         Log ERROR (''ModuleNotFoundError: No module named '' @ [CHR 0x27] @ ''awq''
                    @ [CHR 0x27]) NoExcInfo,
         Log ERROR (CHR 0x1B # ''[31m<autoawq> test failed!'' @ [CHR 0x0A]
                    @ ''Please ensure it has been installed correctly.''
                    @ CHR 0x1B # ''[0m'') NoExcInfo],
        Exits 1)"
    using check_awq_scope_and_severity [of _ awq_config ?no_awq ?dict "module_not_found ''awq''"] q i
    by (simp add: module_not_found_def Let_def)
  have r4: "check_awq ?no_ext awq_config ''cuda''
     = ([Ext AwqImport, Ext AwqExtImport,
         Log DEBUG ''Exception:'' (ExcInfo (Some (module_not_found ''awq_ext''))),
         Log WARNING (''Failed to import `awq_ext`. Try reinstall it from source: ''
                      @ ''https://github.com/casper-hansen/AutoAWQ_kernels'') NoExcInfo],
        Returns ())"
    using check_awq_scope_and_severity [of _ awq_config ?no_ext ?dict "module_not_found ''awq_ext''"] q i
    by simp
  have r5: "check_awq good_host awq_config ''cuda'' = ([Ext AwqImport, Ext AwqExtImport], Returns ())"
    using check_awq_scope_and_severity [of _ awq_config good_host ?dict] q i
    by simp
  from r1 r2 r3 r4 r5 show ?thesis by blast
qed

section \<open>Properties of the adapter probes\<close>

text \<open>
  A load failure whose first argument is a string: the hint is appended exactly when the
  string contains \<^verbatim>\<open>got an unexpected keyword argument\<close>, and the reporter is called.
\<close>

lemma check_adapter_text_failure:
  assumes "peft_load env path = Some e"
    and "exn_args e = PStr first # rest"
  shows "check_adapter env path =
           after [Log DEBUG (''Checking <Adapter>: '' @ path @ ''.'') NoExcInfo,
                  Ext (PeftLoad path)]
             (handle_exception (Some e) e ''Model''
                (PStr (if contains unexpected_keyword first
                       then adapter_message @ adapter_hint else adapter_message)))"
  using assms by (simp add: check_adapter_def Let_def)

text \<open>
  Claim C7. The claim: on every failure of the adapter-config load, the remediation has the
  hint on \<^verbatim>\<open>adapter_config.json\<close> if and only if the failure's message contains
  \<^verbatim>\<open>got an unexpected keyword argument\<close>, and in all failure cases the probe reports through the
  reporter and terminates. This holds when the first argument of the exception is a string
  (\<open>check_adapter_text_failure\<close>). It does not hold on every failure: line 263 takes the first
  argument whatever its type, and line 264 applies \<^verbatim>\<open>in\<close> to it inside the handler. The run
  is \<^verbatim>\<open>check_adapter\<close> on an adapter whose \<^verbatim>\<open>adapter_config.json\<close> cannot be read, so that the load
  raises \<^verbatim>\<open>PermissionError(13, 'Permission denied')\<close>: a \<^verbatim>\<open>TypeError\<close> leaves the probe, the
  reporter is not called and nothing is logged after the progress line.
\<close>

theorem check_adapter_non_text_argument:
  "check_adapter (good_host\<lparr>peft_load := (\<lambda>path. Some permission_error)\<rparr>) ''/adapters/a'' =
     ([Log DEBUG ''Checking <Adapter>: /adapters/a.'' NoExcInfo, Ext (PeftLoad ''/adapters/a'')],
      Raises (type_error ''int''))
   \<and> exn_name (type_error ''int'') = ''TypeError''"
  by (simp add: check_adapter_def permission_error_def after_def raises_def type_error_def
      Let_def)

text \<open>
  Claim C10. In \<^verbatim>\<open>check_adapter\<close>, for every load failure whose \<^verbatim>\<open>args\<close> is empty: the message
  text is taken to be the empty string, which does not contain
  \<^verbatim>\<open>got an unexpected keyword argument\<close>; the reporter is called with the load-with-peft
  remediation alone, which does not contain the hint; the process exits with status 1, and
  no exception leaves the probe.
\<close>

theorem check_adapter_empty_args:
  assumes "peft_load env path = Some e"
    and "exn_args e = []"
  shows "check_adapter env path =
           ([Log DEBUG (''Checking <Adapter>: '' @ path @ ''.'') NoExcInfo, Ext (PeftLoad path),
             Log DEBUG ''Exception'' (ExcInfo (Some e)),
             Log ERROR (exn_name e @ '': '' @ exn_str e) NoExcInfo,
             Log ERROR (CHR 0x1B # ''[31m<Model> test failed!'' @ [CHR 0x0A]
                        @ ''Please make sure the adapter can be loaded with ''
                        @ ''`peft.PeftConfig.from_pretrained`'' @ [CHR 0x0A]
                        @ CHR 0x1B # ''[0m'') NoExcInfo],
            Exits 1)
         \<and> py_in unexpected_keyword (PStr []) = Inr False
         \<and> \<not> contains adapter_hint adapter_message"
proof -
  have test: "py_in unexpected_keyword (PStr []) = Inr False"
    by (simp add: unexpected_keyword_def)
  have run: "check_adapter env path =
           ([Log DEBUG (''Checking <Adapter>: '' @ path @ ''.'') NoExcInfo, Ext (PeftLoad path),
             Log DEBUG ''Exception'' (ExcInfo (Some e)),
             Log ERROR (exn_name e @ '': '' @ exn_str e) NoExcInfo,
             Log ERROR (CHR 0x1B # ''[31m<Model> test failed!'' @ [CHR 0x0A]
                        @ ''Please make sure the adapter can be loaded with ''
                        @ ''`peft.PeftConfig.from_pretrained`'' @ [CHR 0x0A]
                        @ CHR 0x1B # ''[0m'') NoExcInfo],
            Exits 1)"
    using assms
    by (simp add: check_adapter_def unexpected_keyword_def after_def handle_exception_def py_str_def
        adapter_message_def Let_def)
  have no_hint: "\<not> contains adapter_hint adapter_message"
    by (simp add: adapter_hint_def adapter_message_def)
  from run test no_hint show ?thesis by blast
qed

text \<open>The load raises \<^verbatim>\<open>ValueError()\<close>.\<close>

theorem check_adapter_empty_args_witness:
  "peft_load (good_host\<lparr>peft_load := (\<lambda>path. Some bare_error)\<rparr>) ''/adapters/a'' = Some bare_error
   \<and> exn_args bare_error = []
   \<and> check_adapter (good_host\<lparr>peft_load := (\<lambda>path. Some bare_error)\<rparr>) ''/adapters/a'' =
       ([Log DEBUG ''Checking <Adapter>: /adapters/a.'' NoExcInfo, Ext (PeftLoad ''/adapters/a''),
         Log DEBUG ''Exception'' (ExcInfo (Some bare_error)),
         Log ERROR ''ValueError: '' NoExcInfo,
         Log ERROR (CHR 0x1B # ''[31m<Model> test failed!'' @ [CHR 0x0A]
                    @ ''Please make sure the adapter can be loaded with ''
                    @ ''`peft.PeftConfig.from_pretrained`'' @ [CHR 0x0A]
                    @ CHR 0x1B # ''[0m'') NoExcInfo],
        Exits 1)"
proof -
  have h1: "peft_load (good_host\<lparr>peft_load := (\<lambda>path. Some bare_error)\<rparr>) ''/adapters/a''
            = Some bare_error"
    by simp
  have h2: "exn_args bare_error = []"
    by (simp add: bare_error_def)
  from check_adapter_empty_args [OF h1 h2] h1 h2 show ?thesis
    by (simp add: bare_error_def)
qed

text \<open>
  Claim C8. \<^verbatim>\<open>check_adapters\<close> on the empty sequence returns, with no logger call and no
  load of an adapter config, whatever the loads would do; the process does not exit.
\<close>

theorem check_adapters_empty: "check_adapters env [] = ([], Returns ())"
  by (simp add: check_adapters_def returns_def)

section \<open>Exceptions that leave a probe\<close>

text \<open>
  Claim C3. The claim: an exception raised during a probe is either survived with a logged
  warning or sent to the reporter, and no exception leaves a probe. Two handlers of the
  module raise an exception themselves, and nothing catches it.
  \<^item> \<^verbatim>\<open>check_adapters\<close> on one adapter whose load raises
    \<^verbatim>\<open>PermissionError(13, 'Permission denied')\<close>: line 264 applies \<^verbatim>\<open>in\<close> to the number 13, and
    a \<^verbatim>\<open>TypeError\<close> leaves \<^verbatim>\<open>check_adapter\<close> and \<^verbatim>\<open>check_adapters\<close>.
  \<^item> \<^verbatim>\<open>check_model\<close> where \<^verbatim>\<open>ModelConfig.from_hf_config\<close> fails an assertion: the handler of
    line 220 reads \<^verbatim>\<open>model_config.dtype\<close>, which line 214 has not assigned, and an
    \<^verbatim>\<open>UnboundLocalError\<close> leaves \<^verbatim>\<open>__check_model_dtype_support\<close> and \<^verbatim>\<open>check_model\<close>.
  In both runs the reporter is not called and the process does not exit.
\<close>

theorem probe_exception_escapes:
  "check_adapters (good_host\<lparr>peft_load := (\<lambda>path. Some permission_error)\<rparr>) [''/adapters/a''] =
     ([Log INFO ''Checking adapters.'' NoExcInfo,
       Log DEBUG ''Checking <Adapter>: /adapters/a.'' NoExcInfo, Ext (PeftLoad ''/adapters/a'')],
      Raises (type_error ''int''))
   \<and> check_model (good_host\<lparr>from_hf_config :=
                     (\<lambda>config model_path dtype_arg. Inl failed_assertion)\<rparr>)
       ''/path/to/model'' True ''auto'' ''cuda'' =
     ([Log INFO ''Checking model.'' NoExcInfo,
       Log DEBUG ''Checking <transformers> version.'' NoExcInfo, Ext TransformersImport,
       Log DEBUG ''Checking <Model> AutoConfig.from_pretrained.'' NoExcInfo,
       Ext (ConfigLoad ''/path/to/model'' True),
       Log DEBUG ''Checking <Model> required transformers version.'' NoExcInfo,
       Log DEBUG ''Checking <Model> dtype support.'' NoExcInfo,
       Ext (FromHfConfig ''/path/to/model'' ''auto'')],
      Raises (unbound_local_error ''model_config''))"
proof -
  have v: "\<not> version_lt (final_release [4, 44, 1]) min_version"
    "\<not> version_gt (final_release [4, 44, 1]) max_version"
    by (simp_all add: version_eval min_version_def max_version_def)
  have a: "check_adapters (good_host\<lparr>peft_load := (\<lambda>path. Some permission_error)\<rparr>) [''/adapters/a''] =
     ([Log INFO ''Checking adapters.'' NoExcInfo,
       Log DEBUG ''Checking <Adapter>: /adapters/a.'' NoExcInfo, Ext (PeftLoad ''/adapters/a'')],
      Raises (type_error ''int''))"
    by (simp add: check_adapters_def check_adapter_def permission_error_def after_def
        raises_def then_run_def Let_def)
  have b: "check_model (good_host\<lparr>from_hf_config :=
                     (\<lambda>config model_path dtype_arg. Inl failed_assertion)\<rparr>)
       ''/path/to/model'' True ''auto'' ''cuda'' =
     ([Log INFO ''Checking model.'' NoExcInfo,
       Log DEBUG ''Checking <transformers> version.'' NoExcInfo, Ext TransformersImport,
       Log DEBUG ''Checking <Model> AutoConfig.from_pretrained.'' NoExcInfo,
       Ext (ConfigLoad ''/path/to/model'' True),
       Log DEBUG ''Checking <Model> required transformers version.'' NoExcInfo,
       Log DEBUG ''Checking <Model> dtype support.'' NoExcInfo,
       Ext (FromHfConfig ''/path/to/model'' ''auto'')],
      Raises (unbound_local_error ''model_config''))"
    using v
    by (simp add: check_model_def check_transformers_version_def
        inner_check_transformers_version_def inner_check_config_def
        inner_check_model_transformers_version_def inner_check_model_dtype_support_def
        dtype_except_def failed_assertion_def good_host_def example_parse_def plain_config_def
        then_run_def after_def returns_def raises_def)
  from a b show ?thesis by blast
qed

end
